theory Spec2Isabelle
  imports Complex_Main "HOL-Library.Monad_Syntax"
begin

section \<open>Data model shared by the divergence-cleaning kernels (b\_cd.cpp)\<close>

text \<open>
  The C++ type \<^verbatim>\<open>Real\<close> is a double.  A value is a real number, and the kernels of
  b\_cd.cpp take the rounding of the arithmetic as the parameter \<open>rnd\<close>: every
  operation of the source on \<^verbatim>\<open>Real\<close> returns \<open>rnd\<close> of the exact result.  Two
  roundings are defined: \<open>binary64\<close>, the rounding of doubles, and \<open>exact_round\<close>, no
  rounding at all.  A theorem stated for every \<open>rnd\<close> holds for both.

  \<open>binary64\<close> rounds to the nearest number with a significand of 53 bits, ties to the
  even significand.  The exponent range is unbounded: there is no overflow, no
  subnormal number, no NaN and no infinity.  Where a theorem depends on the value of a
  quotient, the divisor is assumed non-zero, because HOL's \<open>x / 0 = 0\<close> is not what the
  machine computes.  \<^verbatim>\<open>Kokkos::sqrt\<close> is the rounded \<^term>\<open>sqrt\<close>; the two agree on
  non-negative arguments only.  Negation and comparison are exact.

  The rest problem (rest\_conserve.cpp) is modelled with exact arithmetic: nothing proved
  about it depends on a computed value.
\<close>

type_synonym Real = real

definition round_half_even :: "real \<Rightarrow> int" where
  "round_half_even q =
     (let f = \<lfloor>q\<rfloor>
      in if q - of_int f < 1 / 2 then f
         else if 1 / 2 < q - of_int f then f + 1
         else if even f then f else f + 1)"

definition binary64 :: "Real \<Rightarrow> Real" where
  "binary64 x =
     (if x = 0 then 0
      else let e = \<lfloor>log 2 \<bar>x\<bar>\<rfloor>;
               ulp = 2 powr (of_int e - 52)
           in sgn x * (of_int (round_half_even (\<bar>x\<bar> / ulp)) * ulp))"

definition exact_round :: "Real \<Rightarrow> Real" where
  "exact_round x = x"

text \<open>The operations of the source on \<^verbatim>\<open>Real\<close>, under the rounding \<open>rnd\<close>.\<close>

definition fadd :: "(Real \<Rightarrow> Real) \<Rightarrow> Real \<Rightarrow> Real \<Rightarrow> Real" where
  "fadd rnd x y = rnd (x + y)"

definition fsub :: "(Real \<Rightarrow> Real) \<Rightarrow> Real \<Rightarrow> Real \<Rightarrow> Real" where
  "fsub rnd x y = rnd (x - y)"

definition fmul :: "(Real \<Rightarrow> Real) \<Rightarrow> Real \<Rightarrow> Real \<Rightarrow> Real" where
  "fmul rnd x y = rnd (x * y)"

definition fdiv :: "(Real \<Rightarrow> Real) \<Rightarrow> Real \<Rightarrow> Real \<Rightarrow> Real" where
  "fdiv rnd x y = rnd (x / y)"

definition fsqrt :: "(Real \<Rightarrow> Real) \<Rightarrow> Real \<Rightarrow> Real" where
  "fsqrt rnd x = rnd (sqrt x)"

text \<open>
  \<^verbatim>\<open>TaskStatus\<close> of the task framework; the sources return \<^verbatim>\<open>TaskStatus::complete\<close>
  and compare against \<^verbatim>\<open>TaskStatus::incomplete\<close>.  The constructors carry a suffix
  because \<open>complete\<close> is a constant of the library.
\<close>

datatype TaskStatus = fail_ts | complete_ts | incomplete_ts

text \<open>Locations inside a zone at which the geometry is evaluated (\<^verbatim>\<open>Loci::center\<close>, ...).\<close>

datatype Loci = face1 | face2 | face3 | center | corner

text \<open>
  The macros \<^verbatim>\<open>NVEC\<close>, \<^verbatim>\<open>V1\<close>, \<^verbatim>\<open>V2\<close>, \<^verbatim>\<open>V3\<close> and \<^verbatim>\<open>VLOOP\<close> come from the
  header decs.hpp, and \<^verbatim>\<open>X1DIR\<close>, \<^verbatim>\<open>X2DIR\<close>, \<^verbatim>\<open>X3DIR\<close> from the mesh framework;
  neither header is among the sources.  \<^verbatim>\<open>Initialize\<close> registers \<^verbatim>\<open>cons.B\<close> as a vector
  of \<^verbatim>\<open>NVEC\<close> components, \<^verbatim>\<open>VLOOP\<close> runs \<open>v\<close> over \<open>0, ..., NVEC - 1\<close>, and
  \<^verbatim>\<open>MaxDivB\<close> writes the directions as the literals 1, 2, 3 where \<^verbatim>\<open>AddSource\<close>
  writes \<^verbatim>\<open>X1DIR\<close>, \<^verbatim>\<open>X2DIR\<close>, \<^verbatim>\<open>X3DIR\<close>.
\<close>

definition NVEC :: nat where "NVEC = 3"
definition V1 :: nat where "V1 = 0"
definition V2 :: nat where "V2 = 1"
definition V3 :: nat where "V3 = 2"
definition X1DIR :: nat where "X1DIR = 1"
definition X2DIR :: nat where "X2DIR = 2"
definition X3DIR :: nat where "X3DIR = 3"

text \<open>
  The geometry provider \<^verbatim>\<open>G\<close> (\<^verbatim>\<open>pmb->coords\<close>, \<^verbatim>\<open>B_U.GetCoords(b)\<close>).  Its class is not
  among the sources, so each member function the kernels call is a field:
  \<^verbatim>\<open>G.gcon(loc, j, i, mu, nu)\<close>, \<^verbatim>\<open>G.gdet(loc, j, i)\<close>, \<^verbatim>\<open>G.dx1v(i)\<close>, \<^verbatim>\<open>G.dx2v(j)\<close>,
  \<^verbatim>\<open>G.dx3v(k)\<close>.
\<close>

record Coords =
  gcon :: "Loci \<Rightarrow> int \<Rightarrow> int \<Rightarrow> nat \<Rightarrow> nat \<Rightarrow> Real"
  gdet :: "Loci \<Rightarrow> int \<Rightarrow> int \<Rightarrow> Real"
  dx1v :: "int \<Rightarrow> Real"
  dx2v :: "int \<Rightarrow> Real"
  dx3v :: "int \<Rightarrow> Real"

text \<open>\<^verbatim>\<open>IndexRange{s, e}\<close>: an inclusive range of cell indices.\<close>

record IndexRange =
  range_s :: int
  range_e :: int

text \<open>\<^verbatim>\<open>IndexDomain\<close>; suffixed because \<open>interior\<close> is a constant of the library.\<close>

datatype IndexDomain = interior_dom | entire_dom

text \<open>\<^verbatim>\<open>pmb->cellbounds\<close> and \<^verbatim>\<open>pmb->c_cellbounds\<close>: index ranges per axis and domain.\<close>

record IndexShape =
  GetBoundsI :: "IndexDomain \<Rightarrow> IndexRange"
  GetBoundsJ :: "IndexDomain \<Rightarrow> IndexRange"
  GetBoundsK :: "IndexDomain \<Rightarrow> IndexRange"

text \<open>
  Run-time parameter tables (\<^verbatim>\<open>Params\<close>) of the packages, keyed by name, and the
  table of packages, keyed by package name.
\<close>

datatype pvalue = PReal Real | PBool bool | PInt int

type_synonym Params = "string \<rightharpoonup> pvalue"
type_synonym Packages = "string \<rightharpoonup> Params"

text \<open>
  One mesh block's data (\<^verbatim>\<open>MeshBlockData<Real>\<close>) together with what the kernels reach
  through its block pointer: the number of dimensions of the mesh, the geometry, the
  index shapes and the packages.  The fields of the container are the ones
  \<^verbatim>\<open>Initialize\<close> registers and the ones the rest problem reads; an array is a function
  of its indices, in the order the source writes them: \<^verbatim>\<open>B_U(v, k, j, i)\<close>,
  \<^verbatim>\<open>psi_U(k, j, i)\<close>, \<^verbatim>\<open>flux(dir, v, k, j, i)\<close>.  The flux of the scalar
  \<^verbatim>\<open>cons.psi_cd\<close> has the single component 0, which the model leaves out.
\<close>

record MeshBlockData =
  pmy_mesh_ndim :: int
  coords :: Coords
  cellbounds :: IndexShape
  c_cellbounds :: IndexShape
  packages :: Packages
  cons_B :: "nat \<Rightarrow> int \<Rightarrow> int \<Rightarrow> int \<Rightarrow> Real"
  prims_B :: "nat \<Rightarrow> int \<Rightarrow> int \<Rightarrow> int \<Rightarrow> Real"
  cons_psi_cd :: "int \<Rightarrow> int \<Rightarrow> int \<Rightarrow> Real"
  prims_psi_cd :: "int \<Rightarrow> int \<Rightarrow> int \<Rightarrow> Real"
  cons_B_flux :: "nat \<Rightarrow> nat \<Rightarrow> int \<Rightarrow> int \<Rightarrow> int \<Rightarrow> Real"
  cons_psi_cd_flux :: "nat \<Rightarrow> int \<Rightarrow> int \<Rightarrow> int \<Rightarrow> Real"
  prims_rho :: "int \<Rightarrow> int \<Rightarrow> int \<Rightarrow> Real"
  prims_u :: "int \<Rightarrow> int \<Rightarrow> int \<Rightarrow> Real"
  prims_uvec :: "nat \<Rightarrow> int \<Rightarrow> int \<Rightarrow> int \<Rightarrow> Real"
  prims_Ktot :: "int \<Rightarrow> int \<Rightarrow> int \<Rightarrow> Real"
  prims_Kel_Constant :: "int \<Rightarrow> int \<Rightarrow> int \<Rightarrow> Real"

text \<open>
  \<^verbatim>\<open>MeshData<Real>\<close>: the blocks of one stage snapshot on this process, with what the
  kernels reach through \<^verbatim>\<open>md->GetMeshPointer()\<close> and \<^verbatim>\<open>md->GetBoundsI/J/K\<close>.  The block
  pointer \<^verbatim>\<open>pmb0\<close> serves only to reach the packages, which mesh and blocks share, and
  to launch the kernel; the model keeps that table in \<open>mesh_packages\<close>.
\<close>

record MeshData =
  ndim :: int
  mesh_packages :: Packages
  md_GetBoundsI :: "IndexDomain \<Rightarrow> IndexRange"
  md_GetBoundsJ :: "IndexDomain \<Rightarrow> IndexRange"
  md_GetBoundsK :: "IndexDomain \<Rightarrow> IndexRange"
  blocks :: "MeshBlockData list"

text \<open>Writing one element of an array: \<^verbatim>\<open>A(k, j, i) = x\<close> and \<^verbatim>\<open>A(v, k, j, i) = x\<close>.\<close>

definition upd3 :: "(int \<Rightarrow> int \<Rightarrow> int \<Rightarrow> Real) \<Rightarrow> int \<Rightarrow> int \<Rightarrow> int \<Rightarrow> Real
    \<Rightarrow> (int \<Rightarrow> int \<Rightarrow> int \<Rightarrow> Real)" where
  "upd3 A k j i x = A(k := (A k)(j := (A k j)(i := x)))"

definition upd4 :: "(nat \<Rightarrow> int \<Rightarrow> int \<Rightarrow> int \<Rightarrow> Real) \<Rightarrow> nat \<Rightarrow> int \<Rightarrow> int \<Rightarrow> int \<Rightarrow> Real
    \<Rightarrow> (nat \<Rightarrow> int \<Rightarrow> int \<Rightarrow> int \<Rightarrow> Real)" where
  "upd4 A v k j i x = A(v := upd3 (A v) k j i x)"

text \<open>
  The cells a three-dimensional \<^verbatim>\<open>par_for\<close> visits: \<open>k\<close> outermost, \<open>i\<close> innermost,
  bounds inclusive.  The kernels below touch, at a cell, only array elements of that
  cell (and read fluxes and geometry, which they never write), so the order in which
  the cells are taken does not matter and the model takes them in loop order.
\<close>

definition cells3 :: "IndexRange \<Rightarrow> IndexRange \<Rightarrow> IndexRange \<Rightarrow> (int \<times> int \<times> int) list" where
  "cells3 kr jr ir =
     [(k, j, i). k \<leftarrow> [range_s kr..range_e kr], j \<leftarrow> [range_s jr..range_e jr],
                 i \<leftarrow> [range_s ir..range_e ir]]"

section \<open>B\_CD::UtoP\<close>

text \<open>The body of the kernel \<^verbatim>\<open>UtoP_B\<close> at one cell.\<close>

definition UtoP_cell :: "(Real \<Rightarrow> Real) \<Rightarrow> MeshBlockData \<Rightarrow> int \<times> int \<times> int \<Rightarrow> MeshBlockData" where
  "UtoP_cell rnd rc c =
     (case c of (k, j, i) \<Rightarrow>
        let gdet_c = gdet (coords rc) center j i;
            rc1 = foldl (\<lambda>r v. r\<lparr>prims_B := upd4 (prims_B r) v k j i
                                      (fdiv rnd (cons_B r v k j i) gdet_c)\<rparr>)
                    rc [0..<NVEC]
        in rc1\<lparr>prims_psi_cd := upd3 (prims_psi_cd rc1) k j i
                                   (fdiv rnd (cons_psi_cd rc1 k j i) gdet_c)\<rparr>)"

text \<open>
  \<^verbatim>\<open>UtoP(rc, domain, coarse)\<close>: the bounds are \<^verbatim>\<open>pmb->c_cellbounds\<close> when \<^verbatim>\<open>coarse\<close>
  is set and \<^verbatim>\<open>pmb->cellbounds\<close> otherwise.  The function returns nothing; the model
  returns the block as the call leaves it.
\<close>

definition UtoP :: "(Real \<Rightarrow> Real) \<Rightarrow> MeshBlockData \<Rightarrow> IndexDomain \<Rightarrow> bool \<Rightarrow> MeshBlockData" where
  "UtoP rnd rc domain coarse =
     (let bounds = (if coarse then c_cellbounds rc else cellbounds rc);
          ib = GetBoundsI bounds domain;
          jb = GetBoundsJ bounds domain;
          kb = GetBoundsK bounds domain
      in foldl (UtoP_cell rnd) rc (cells3 kb jb ib))"

section \<open>B\_CD::AddSource\<close>

text \<open>
  \<^verbatim>\<open>Param<Real>(key)\<close> and \<^verbatim>\<open>Param<bool>(key)\<close> on the package \<open>p\<close>: the framework
  throws when the package or the key is missing or holds another type; the model
  returns \<open>None\<close> there.
\<close>

definition Param_Real :: "Packages \<Rightarrow> string \<Rightarrow> string \<Rightarrow> Real option" where
  "Param_Real pk p key =
     (case pk p of None \<Rightarrow> None
      | Some ps \<Rightarrow> (case ps key of Some (PReal r) \<Rightarrow> Some r | _ \<Rightarrow> None))"

definition Param_Bool :: "Packages \<Rightarrow> string \<Rightarrow> string \<Rightarrow> bool option" where
  "Param_Bool pk p key =
     (case pk p of None \<Rightarrow> None
      | Some ps \<Rightarrow> (case ps key of Some (PBool b) \<Rightarrow> Some b | _ \<Rightarrow> None))"

text \<open>
  The local \<^verbatim>\<open>divB\<close> of the kernel \<^verbatim>\<open>AddSource_B_CD\<close> (lines 161 to 163), from the
  face fluxes of \<^verbatim>\<open>cons.B\<close> of the state \<^verbatim>\<open>md\<close>.
\<close>

definition divB_AddSource :: "(Real \<Rightarrow> Real) \<Rightarrow> int \<Rightarrow> MeshBlockData \<Rightarrow> int \<Rightarrow> int \<Rightarrow> int \<Rightarrow> Real" where
  "divB_AddSource rnd nd u k j i =
     (let G = coords u;
          divB = fadd rnd
                   (fdiv rnd (fsub rnd (cons_B_flux u X1DIR V1 k j (i + 1)) (cons_B_flux u X1DIR V1 k j i))
                      (dx1v G i))
                   (fdiv rnd (fsub rnd (cons_B_flux u X2DIR V2 k (j + 1) i) (cons_B_flux u X2DIR V2 k j i))
                      (dx2v G j))
      in if nd > 2
         then fadd rnd divB
                (fdiv rnd (fsub rnd (cons_B_flux u X3DIR V3 (k + 1) j i) (cons_B_flux u X3DIR V3 k j i))
                   (dx3v G k))
         else divB)"

text \<open>
  One round of the \<^verbatim>\<open>VLOOP\<close> of the kernel (lines 166 to 178), for the component \<open>v\<close>.
  The source packs \<^verbatim>\<open>B_DU\<close> from \<^verbatim>\<open>md\<close> (line 144:
  \<^verbatim>\<open>auto& B_DU = md->PackVariables(...{"cons.B"})\<close>), not from \<^verbatim>\<open>mdudt\<close>, so the three
  \<^verbatim>\<open>B_DU(b, v, k, j, i) += ...\<close> write \<^verbatim>\<open>cons.B\<close> of the block \<open>u\<close> of the state.
  A product \<^verbatim>\<open>a * g * d / dx\<close> is \<^verbatim>\<open>((a * g) * d) / dx\<close>.
\<close>

definition AddSource_B :: "(Real \<Rightarrow> Real) \<Rightarrow> int \<Rightarrow> Real \<Rightarrow> Real \<Rightarrow> int \<Rightarrow> int \<Rightarrow> int
    \<Rightarrow> MeshBlockData \<Rightarrow> nat \<Rightarrow> MeshBlockData" where
  "AddSource_B rnd nd alpha_c divB k j i u v =
     (let G = coords u;
          u1 = u\<lparr>cons_B := upd4 (cons_B u) v k j i (fadd rnd (cons_B u v k j i)
                 (fadd rnd
                    (fdiv rnd
                       (fmul rnd (fmul rnd alpha_c (gcon G center j i (v + 1) 1))
                          (fsub rnd (cons_psi_cd_flux u X1DIR k j (i + 1)) (cons_psi_cd_flux u X1DIR k j i)))
                       (dx1v G i))
                    (fdiv rnd
                       (fmul rnd (fmul rnd alpha_c (gcon G center j i (v + 1) 2))
                          (fsub rnd (cons_psi_cd_flux u X2DIR k (j + 1) i) (cons_psi_cd_flux u X2DIR k j i)))
                       (dx2v G j))))\<rparr>;
          u2 = (if nd > 2
                then u1\<lparr>cons_B := upd4 (cons_B u1) v k j i (fadd rnd (cons_B u1 v k j i)
                       (fdiv rnd
                          (fmul rnd (fmul rnd alpha_c (gcon G center j i (v + 1) 3))
                             (fsub rnd (cons_psi_cd_flux u1 X3DIR (k + 1) j i)
                                (cons_psi_cd_flux u1 X3DIR k j i)))
                          (dx3v G k)))\<rparr>
                else u1)
      in u2\<lparr>cons_B := upd4 (cons_B u2) v k j i (fadd rnd (cons_B u2 v k j i)
             (fmul rnd (fmul rnd (fmul rnd (gcon G center j i 0 (v + 1)) alpha_c) alpha_c) divB))\<rparr>)"

text \<open>
  The lapse \<^verbatim>\<open>1. / Kokkos::sqrt(-G.gcon(loc, j, i, 0, 0))\<close>, and the lapse gradients of
  the kernel (lines 180 to 183).  The second gradient divides by \<^verbatim>\<open>G.dx2v(i)\<close>, as the
  source does.
\<close>

definition lapse :: "(Real \<Rightarrow> Real) \<Rightarrow> Coords \<Rightarrow> Loci \<Rightarrow> int \<Rightarrow> int \<Rightarrow> Real" where
  "lapse rnd G l j i = fdiv rnd 1 (fsqrt rnd (- gcon G l j i 0 0))"

definition dalpha1 :: "(Real \<Rightarrow> Real) \<Rightarrow> Coords \<Rightarrow> int \<Rightarrow> int \<Rightarrow> Real" where
  "dalpha1 rnd G j i =
     fdiv rnd
       (fsub rnd (fdiv rnd (lapse rnd G face1 j (i + 1)) (gdet G face1 j (i + 1)))
                 (fdiv rnd (lapse rnd G face1 j i) (gdet G face1 j i)))
       (dx1v G i)"

definition dalpha2 :: "(Real \<Rightarrow> Real) \<Rightarrow> Coords \<Rightarrow> int \<Rightarrow> int \<Rightarrow> Real" where
  "dalpha2 rnd G j i =
     fdiv rnd
       (fsub rnd (fdiv rnd (lapse rnd G face2 (j + 1) i) (gdet G face2 (j + 1) i))
                 (fdiv rnd (lapse rnd G face2 j i) (gdet G face2 j i)))
       (dx2v G i)"

text \<open>
  The body of the kernel at one cell of one block: \<open>u\<close> is the block of \<^verbatim>\<open>md\<close>, \<open>du\<close>
  the block of \<^verbatim>\<open>mdudt\<close>.  \<^verbatim>\<open>gdet_c\<close> is computed by the source and never used.  The last
  statement reads \<^verbatim>\<open>B_U(b, V1, k, j, i)\<close> and \<^verbatim>\<open>B_U(b, V2, k, j, i)\<close> after the
  \<^verbatim>\<open>VLOOP\<close> has written the same array.
\<close>

definition AddSource_cell :: "(Real \<Rightarrow> Real) \<Rightarrow> int \<Rightarrow> Real \<Rightarrow> MeshBlockData \<times> MeshBlockData
    \<Rightarrow> int \<times> int \<times> int \<Rightarrow> MeshBlockData \<times> MeshBlockData" where
  "AddSource_cell rnd nd lam st c =
     (case st of (u, du) \<Rightarrow> case c of (k, j, i) \<Rightarrow>
        let G = coords u;
            alpha_c = lapse rnd G center j i;
            divB = divB_AddSource rnd nd u k j i;
            u' = foldl (AddSource_B rnd nd alpha_c divB k j i) u [0..<NVEC]
        in (u', du\<lparr>cons_psi_cd := upd3 (cons_psi_cd du) k j i (fadd rnd (cons_psi_cd du k j i)
                  (fsub rnd
                     (fadd rnd (fmul rnd (cons_B u' V1 k j i) (dalpha1 rnd G j i))
                               (fmul rnd (cons_B u' V2 k j i) (dalpha2 rnd G j i)))
                     (fmul rnd (fmul rnd alpha_c lam) (cons_psi_cd u' k j i))))\<rparr>))"

text \<open>
  \<^verbatim>\<open>AddSource(md, mdudt)\<close>.  The kernel runs over the blocks \<open>0, ..., B_U.GetDim(5) - 1\<close> of
  the pack of \<^verbatim>\<open>md\<close> and indexes the pack of \<^verbatim>\<open>mdudt\<close> with the same \<open>b\<close>: the two
  snapshots hold the same blocks, and the model pairs them up.  The result carries both
  snapshots as the call leaves them.
\<close>

definition AddSource :: "(Real \<Rightarrow> Real) \<Rightarrow> MeshData \<Rightarrow> MeshData
    \<Rightarrow> (TaskStatus \<times> MeshData \<times> MeshData) option" where
  "AddSource rnd md mdudt =
     (if ndim md < 2 then Some (complete_ts, md, mdudt)
      else case Param_Real (mesh_packages md) ''B_CD'' ''damping'' of
        None \<Rightarrow> None
      | Some lam \<Rightarrow>
          let ib = md_GetBoundsI md interior_dom;
              jb = md_GetBoundsJ md interior_dom;
              kb = md_GetBoundsK md interior_dom;
              res = map (\<lambda>st. foldl (AddSource_cell rnd (ndim md) lam) st (cells3 kb jb ib))
                      (zip (blocks md) (blocks mdudt))
          in Some (complete_ts, md\<lparr>blocks := map fst res\<rparr>, mdudt\<lparr>blocks := map snd res\<rparr>))"

section \<open>B\_CD::MaxDivB\<close>

text \<open>The local \<^verbatim>\<open>divb_local\<close> of the reduction kernel (lines 218 to 220).\<close>

definition divb_local :: "(Real \<Rightarrow> Real) \<Rightarrow> int \<Rightarrow> MeshBlockData \<Rightarrow> int \<Rightarrow> int \<Rightarrow> int \<Rightarrow> Real" where
  "divb_local rnd nd u k j i =
     (let G = coords u;
          d = fadd rnd
                (fdiv rnd (fsub rnd (cons_B_flux u 1 V1 k j (i + 1)) (cons_B_flux u 1 V1 k j i))
                   (dx1v G i))
                (fdiv rnd (fsub rnd (cons_B_flux u 2 V2 k (j + 1) i) (cons_B_flux u 2 V2 k j i))
                   (dx2v G j))
      in if nd > 2
         then fadd rnd d
                (fdiv rnd (fsub rnd (cons_B_flux u 3 V3 (k + 1) j i) (cons_B_flux u 3 V3 k j i))
                   (dx3v G k))
         else d)"

text \<open>The cells the reduction visits: block outermost, then \<open>kl\<close>, \<open>jl\<close>, \<open>il\<close>.\<close>

definition MaxDivB_cells :: "MeshData \<Rightarrow> (nat \<times> int \<times> int \<times> int) list" where
  "MaxDivB_cells md =
     (let ib = md_GetBoundsI md interior_dom;
          jb = md_GetBoundsJ md interior_dom;
          kb = md_GetBoundsK md interior_dom;
          il = \<lparr>range_s = range_s ib, range_e = range_e ib - 1\<rparr>;
          jl = \<lparr>range_s = range_s jb, range_e = range_e jb - 1\<rparr>;
          kl = (if ndim md > 2 then \<lparr>range_s = range_s kb, range_e = range_e kb - 1\<rparr> else kb)
      in [(b, c). b \<leftarrow> [0..<length (blocks md)], c \<leftarrow> cells3 kl jl il])"

text \<open>The body of the reduction: \<^verbatim>\<open>if(divb_local > local_result) local_result = divb_local\<close>.\<close>

definition MaxDivB_step :: "(Real \<Rightarrow> Real) \<Rightarrow> MeshData \<Rightarrow> Real \<Rightarrow> nat \<times> int \<times> int \<times> int \<Rightarrow> Real" where
  "MaxDivB_step rnd md local_result c =
     (case c of (b, k, j, i) \<Rightarrow>
        let d = divb_local rnd (ndim md) (blocks md ! b) k j i
        in if d > local_result then d else local_result)"

text \<open>
  \<^verbatim>\<open>MaxDivB(md)\<close>.  The reducer \<^verbatim>\<open>Kokkos::Max<Real>\<close> starts every partial result at its
  identity and joins partial results with the maximum; its definition is not among the
  sources, so the identity is the parameter \<open>max_identity\<close> (for a double, the least
  finite value).
\<close>

definition MaxDivB :: "(Real \<Rightarrow> Real) \<Rightarrow> Real \<Rightarrow> MeshData \<Rightarrow> Real" where
  "MaxDivB rnd max_identity md =
     (if ndim md < 2 then 0
      else foldl (MaxDivB_step rnd md) max_identity (MaxDivB_cells md))"

section \<open>HARMDriver::MakeTaskList (harm.cpp)\<close>

text \<open>
  The functions the driver puts on its task list, one constructor per call site of
  \<^verbatim>\<open>MakeTaskList\<close>.  \<open>EstimateTimestep\<close> is the task \<^verbatim>\<open>new_dt\<close> and
  \<open>CheckRefinementCondition\<close> the task \<^verbatim>\<open>tag_refine\<close>.
\<close>

datatype task_fn =
    StartReceivingTask | CalculateFluxes | SendFluxCorrectionTask | ReceiveFluxCorrectionTask
  | FluxDivergence | SourceTerm | UpdateContainer
  | SendBoundaryBuffersTask | ReceiveBoundaryBuffersTask | SetBoundariesTask | ClearBoundaryTask
  | ProlongateBoundaries | ApplyBoundaryConditions | ApplyCustomBoundaries | FillDerived
  | EstimateTimestep | CheckRefinementCondition

text \<open>
  A task list is the sequence of the tasks added, in insertion order.  A task records
  its function, the task it depends on and the labels of the containers it is given
  (none for a task on the block itself).  A \<^verbatim>\<open>TaskID\<close> is the position of the task in
  the list, counted from 1; \<^verbatim>\<open>TaskID none(0)\<close> is 0.
\<close>

type_synonym TaskID = nat

record Task =
  task_func :: task_fn
  task_dependency :: TaskID
  task_containers :: "string list"

type_synonym TaskList = "Task list"

definition none :: TaskID where "none = 0"

definition AddTask :: "TaskList \<Rightarrow> task_fn \<Rightarrow> TaskID \<Rightarrow> string list \<Rightarrow> TaskList \<times> TaskID" where
  "AddTask tlist f dep cs =
     (tlist @ [\<lparr>task_func = f, task_dependency = dep, task_containers = cs\<rparr>], Suc (length tlist))"

text \<open>
  What \<^verbatim>\<open>MakeTaskList\<close> reads of the driver: \<^verbatim>\<open>integrator->nstages\<close>, the labels
  \<^verbatim>\<open>stage_name[i]\<close> and \<^verbatim>\<open>pmesh->adaptive\<close>.
\<close>

record HARMDriver =
  integrator_nstages :: int
  stage_name :: "int \<Rightarrow> string"
  pmesh_adaptive :: bool

text \<open>
  \<^verbatim>\<open>MakeTaskList(pmb, stage)\<close>.  The result is the list of labels handed to
  \<^verbatim>\<open>pmb->real_containers.Add\<close>, in call order, and the task list.  \<^verbatim>\<open>AddUpdateTask\<close>
  picks its containers itself, from the stage and the stage names.  The task list
  \<^verbatim>\<open>tl\<close> of the source is \<open>tlist\<close>, since \<open>tl\<close> is the tail of a list.
\<close>

definition MakeTaskList :: "HARMDriver \<Rightarrow> int \<Rightarrow> string list \<times> TaskList" where
  "MakeTaskList drv stage =
     (let added = (if stage = 1
                   then ''dUdt'' # map (stage_name drv) [1..integrator_nstages drv - 1]
                   else []);
          sc0 = stage_name drv (stage - 1);
          dudt = ''dUdt'';
          sc1 = stage_name drv stage;
          (tlist, start_recv) = AddTask [] StartReceivingTask none [sc1];
          (tlist, calculate_flux) = AddTask tlist CalculateFluxes start_recv [sc0];
          (tlist, send_flux) = AddTask tlist SendFluxCorrectionTask calculate_flux [sc0];
          (tlist, recv_flux) = AddTask tlist ReceiveFluxCorrectionTask calculate_flux [sc0];
          (tlist, flux_divergence) = AddTask tlist FluxDivergence recv_flux [sc0, dudt];
          (tlist, source_term) = AddTask tlist SourceTerm flux_divergence [sc0, dudt];
          (tlist, update_container) = AddTask tlist UpdateContainer source_term [];
          (tlist, send) = AddTask tlist SendBoundaryBuffersTask update_container [sc1];
          (tlist, recv) = AddTask tlist ReceiveBoundaryBuffersTask send [sc1];
          (tlist, fill_from_bufs) = AddTask tlist SetBoundariesTask recv [sc1];
          (tlist, clear_comm_flags) = AddTask tlist ClearBoundaryTask fill_from_bufs [sc1];
          (tlist, prolong_bound) = AddTask tlist ProlongateBoundaries fill_from_bufs [];
          (tlist, set_parthenon_bc) = AddTask tlist ApplyBoundaryConditions prolong_bound [sc1];
          (tlist, set_custom_bc) = AddTask tlist ApplyCustomBoundaries set_parthenon_bc [sc1];
          (tlist, fill_derived) = AddTask tlist FillDerived set_custom_bc [sc1]
      in if stage = integrator_nstages drv
         then let (tlist, new_dt) = AddTask tlist EstimateTimestep set_custom_bc [sc1]
              in if pmesh_adaptive drv
                 then let (tlist, tag_refine) = AddTask tlist CheckRefinementCondition set_custom_bc []
                      in (added, tlist)
                 else (added, tlist)
         else (added, tlist))"

section \<open>The rest problem (rest\_conserve.cpp)\<close>

text \<open>
  \<^verbatim>\<open>ParameterInput\<close> keeps the input file as text: a table from block and name to the
  string written there.  Reading and writing a value goes through conversions of the
  framework, which are not among the sources and are parameters of the model.
\<close>

type_synonym ParameterInput = "(string \<times> string) \<rightharpoonup> string"

record pin_conv =
  atof :: "string \<Rightarrow> Real"
  atob :: "string \<Rightarrow> bool"
  ftoa :: "Real \<Rightarrow> string"
  btoa :: "bool \<Rightarrow> string"

definition DoesParameterExist :: "ParameterInput \<Rightarrow> string \<Rightarrow> string \<Rightarrow> bool" where
  "DoesParameterExist pin blk name = (pin (blk, name) \<noteq> None)"

text \<open>\<^verbatim>\<open>GetReal\<close> throws when the parameter is absent.\<close>

definition GetReal :: "pin_conv \<Rightarrow> ParameterInput \<Rightarrow> string \<Rightarrow> string \<Rightarrow> Real option" where
  "GetReal cv pin blk name = map_option (atof cv) (pin (blk, name))"

definition GetOrAddReal :: "pin_conv \<Rightarrow> ParameterInput \<Rightarrow> string \<Rightarrow> string \<Rightarrow> Real
    \<Rightarrow> Real \<times> ParameterInput" where
  "GetOrAddReal cv pin blk name def_value =
     (case pin (blk, name) of
        Some s \<Rightarrow> (atof cv s, pin)
      | None \<Rightarrow> (def_value, pin((blk, name) \<mapsto> ftoa cv def_value)))"

definition GetOrAddBoolean :: "pin_conv \<Rightarrow> ParameterInput \<Rightarrow> string \<Rightarrow> string \<Rightarrow> bool
    \<Rightarrow> bool \<times> ParameterInput" where
  "GetOrAddBoolean cv pin blk name def_value =
     (case pin (blk, name) of
        Some s \<Rightarrow> (atob cv s, pin)
      | None \<Rightarrow> (def_value, pin((blk, name) \<mapsto> btoa cv def_value)))"

definition SetReal :: "pin_conv \<Rightarrow> ParameterInput \<Rightarrow> string \<Rightarrow> string \<Rightarrow> Real \<Rightarrow> ParameterInput" where
  "SetReal cv pin blk name x = pin((blk, name) \<mapsto> ftoa cv x)"

text \<open>\<^verbatim>\<open>Params::hasKey\<close> and \<^verbatim>\<open>Params::Add\<close>.\<close>

definition hasKey :: "Params \<Rightarrow> string \<Rightarrow> bool" where
  "hasKey ps key = (ps key \<noteq> None)"

definition Add :: "Params \<Rightarrow> string \<Rightarrow> pvalue \<Rightarrow> Params" where
  "Add ps key x = ps(key \<mapsto> x)"

text \<open>The guarded insertion \<^verbatim>\<open>if(!g_params.hasKey(key)) g_params.Add(key, x)\<close>.\<close>

definition Add_if_absent :: "Params \<Rightarrow> string \<Rightarrow> pvalue \<Rightarrow> Params" where
  "Add_if_absent ps key x = (if \<not> hasKey ps key then Add ps key x else ps)"

text \<open>The first kernel \<^verbatim>\<open>rest_init\<close> of \<^verbatim>\<open>SetRest\<close> at one cell.\<close>

definition SetRest_cell :: "Real \<Rightarrow> Real \<Rightarrow> Real \<Rightarrow> MeshBlockData \<Rightarrow> int \<times> int \<times> int \<Rightarrow> MeshBlockData" where
  "SetRest_cell rho0 u0 v0 rc c =
     (case c of (k, j, i) \<Rightarrow>
        let rc = rc\<lparr>prims_rho := upd3 (prims_rho rc) k j i rho0\<rparr>;
            rc = rc\<lparr>prims_u := upd3 (prims_u rc) k j i u0\<rparr>;
            rc = rc\<lparr>prims_uvec := upd4 (prims_uvec rc) 0 k j i v0\<rparr>;
            rc = rc\<lparr>prims_uvec := upd4 (prims_uvec rc) 1 k j i 0\<rparr>
        in rc\<lparr>prims_uvec := upd4 (prims_uvec rc) 2 k j i 0\<rparr>)"

text \<open>The second kernel \<^verbatim>\<open>rest_init\<close>, run when the package Electrons is loaded.\<close>

definition SetRest_cell_e :: "Real \<Rightarrow> MeshBlockData \<Rightarrow> int \<times> int \<times> int \<Rightarrow> MeshBlockData" where
  "SetRest_cell_e ke0 rc c =
     (case c of (k, j, i) \<Rightarrow>
        let rc = rc\<lparr>prims_Ktot := upd3 (prims_Ktot rc) k j i ke0\<rparr>
        in rc\<lparr>prims_Kel_Constant := upd3 (prims_Kel_Constant rc) k j i ke0\<rparr>)"

text \<open>
  \<^verbatim>\<open>SetRest(rc, domain, coarse)\<close>.  Every \<^verbatim>\<open>Param\<close> lookup can throw, which is \<open>None\<close>.
  \<^verbatim>\<open>coarse\<close> is not read: the bounds always come from \<^verbatim>\<open>pmb->cellbounds\<close>.
  \<^verbatim>\<open>G.coord_embed\<close> fills a local array no statement reads.
\<close>

definition SetRest :: "MeshBlockData \<Rightarrow> IndexDomain \<Rightarrow> bool \<Rightarrow> (TaskStatus \<times> MeshBlockData) option" where
  "SetRest rc domain coarse =
     do {
       u0 \<leftarrow> Param_Real (packages rc) ''GRMHD'' ''u0'';
       v0 \<leftarrow> Param_Real (packages rc) ''GRMHD'' ''v0'';
       rho0 \<leftarrow> Param_Real (packages rc) ''GRMHD'' ''rho0'';
       q \<leftarrow> Param_Real (packages rc) ''GRMHD'' ''q'';
       context_boundaries \<leftarrow> Param_Bool (packages rc) ''GRMHD'' ''context_boundaries'';
       tt \<leftarrow> Param_Real (packages rc) ''Globals'' ''time'';
       dt \<leftarrow> Param_Real (packages rc) ''Globals'' ''dt_last'';
       let ib = GetBoundsI (cellbounds rc) domain;
       let jb = GetBoundsJ (cellbounds rc) domain;
       let kb = GetBoundsK (cellbounds rc) domain;
       let rc1 = foldl (SetRest_cell rho0 u0 v0) rc (cells3 kb jb ib);
       if packages rc ''Electrons'' \<noteq> None
       then do {
         game \<leftarrow> Param_Real (packages rc) ''Electrons'' ''gamma_e'';
         ke0 \<leftarrow> Param_Real (packages rc) ''GRMHD'' ''ke0'';
         Some (complete_ts, foldl (SetRest_cell_e ke0) rc1 (cells3 kb jb ib))
       }
       else Some (complete_ts, rc1)
     }"

text \<open>
  The locals \<^verbatim>\<open>InitializeRest\<close> reads from the input parameters (lines 11 to 18).
\<close>

record rest_inputs =
  rest_set_tlim :: bool
  rest_u0 :: Real
  rest_rho0 :: Real
  rest_v0 :: Real
  rest_q :: Real
  rest_context_boundaries :: bool
  rest_dyntimes :: Real

text \<open>
  Lines 11 to 18: each \<^verbatim>\<open>GetOrAdd\<close> call may add its default to the input parameters;
  \<^verbatim>\<open>q\<close> is read with \<^verbatim>\<open>GetReal\<close> under the guard \<^verbatim>\<open>DoesParameterExist\<close> and is 0
  otherwise.
\<close>

definition InitializeRest_read :: "pin_conv \<Rightarrow> ParameterInput \<Rightarrow> (rest_inputs \<times> ParameterInput) option" where
  "InitializeRest_read cv pin =
     do {
       let (set_tlim, pin) = GetOrAddBoolean cv pin ''rest'' ''set_tlim'' False;
       let (u0, pin) = GetOrAddReal cv pin ''rest'' ''u0'' 1;
       let (rho0, pin) = GetOrAddReal cv pin ''rest'' ''rho0'' 1;
       let (v0, pin) = GetOrAddReal cv pin ''rest'' ''v0'' 1;
       q \<leftarrow> (if DoesParameterExist pin ''rest'' ''q'' then GetReal cv pin ''rest'' ''q'' else Some 0);
       let (context_boundaries, pin) = GetOrAddBoolean cv pin ''rest'' ''context_boundaries'' False;
       let (dyntimes, pin) = GetOrAddReal cv pin ''rest'' ''dyntimes'' 0.5;
       Some (\<lparr>rest_set_tlim = set_tlim, rest_u0 = u0, rest_rho0 = rho0, rest_v0 = v0, rest_q = q,
              rest_context_boundaries = context_boundaries, rest_dyntimes = dyntimes\<rparr>, pin)
     }"

text \<open>Lines 20 to 25: the five guarded insertions into the parameters of the package GRMHD.\<close>

definition InitializeRest_params :: "Params \<Rightarrow> rest_inputs \<Rightarrow> Params" where
  "InitializeRest_params g_params inp =
     (let g = Add_if_absent g_params ''rho0'' (PReal (rest_rho0 inp));
          g = Add_if_absent g ''v0'' (PReal (rest_v0 inp));
          g = Add_if_absent g ''u0'' (PReal (rest_u0 inp));
          g = Add_if_absent g ''q'' (PReal (rest_q inp))
      in Add_if_absent g ''context_boundaries'' (PBool (rest_context_boundaries inp)))"

text \<open>
  Lines 28 to 32: the entropy constant, when the package Electrons is loaded.
  \<^verbatim>\<open>pow\<close> is \<open>powr\<close>.
\<close>

definition InitializeRest_electrons :: "Packages \<Rightarrow> Params \<Rightarrow> rest_inputs \<Rightarrow> Params option" where
  "InitializeRest_electrons pk g_params inp =
     (if pk ''Electrons'' \<noteq> None
      then do {
        fel0 \<leftarrow> Param_Real pk ''Electrons'' ''fel_0'';
        game \<leftarrow> Param_Real pk ''Electrons'' ''gamma_e'';
        Some (Add_if_absent g_params ''ke0''
                (PReal ((game - 1) * fel0 * rest_u0 inp * (rest_rho0 inp powr (- game)))))
      }
      else Some g_params)"

text \<open>
  Lines 34 to 37: the override of the time limit.  \<^verbatim>\<open>abs\<close> is the absolute value of
  a real.
\<close>

definition InitializeRest_tlim :: "pin_conv \<Rightarrow> rest_inputs \<Rightarrow> ParameterInput \<Rightarrow> ParameterInput" where
  "InitializeRest_tlim cv inp pin =
     (if rest_set_tlim inp \<and> rest_q inp \<noteq> 0 \<and> \<not> (rest_q inp < 0 \<and> rest_dyntimes inp > 1)
      then SetReal cv pin ''parthenon/time'' ''tlim'' (rest_dyntimes inp * rest_u0 inp / \<bar>rest_q inp\<bar>)
      else pin)"

text \<open>
  \<^verbatim>\<open>InitializeRest(rc, pin)\<close>.  \<^verbatim>\<open>g_params\<close> is a reference into the package, so the
  insertions are seen by \<^verbatim>\<open>SetRest\<close>.  The call \<^verbatim>\<open>SetRest(rc)\<close> takes the default
  arguments of the declaration in rest\_conserve.hpp, which is not among the sources:
  they are the parameters \<open>domain0\<close> and \<open>coarse0\<close>.  The status of \<^verbatim>\<open>SetRest\<close> is
  dropped, as in the source.  The result carries the block and the input parameters as
  the call leaves them.
\<close>

definition InitializeRest :: "pin_conv \<Rightarrow> IndexDomain \<Rightarrow> bool \<Rightarrow> MeshBlockData \<Rightarrow> ParameterInput
    \<Rightarrow> (TaskStatus \<times> MeshBlockData \<times> ParameterInput) option" where
  "InitializeRest cv domain0 coarse0 rc pin =
     do {
       (inp, pin) \<leftarrow> InitializeRest_read cv pin;
       g_params \<leftarrow> packages rc ''GRMHD'';
       let g_params = InitializeRest_params g_params inp;
       g_params \<leftarrow> InitializeRest_electrons (packages rc) g_params inp;
       let rc = rc\<lparr>packages := (packages rc)(''GRMHD'' \<mapsto> g_params)\<rparr>;
       let pin = InitializeRest_tlim cv inp pin;
       (st, rc) \<leftarrow> SetRest rc domain0 coarse0;
       Some (complete_ts, rc, pin)
     }"

section \<open>The properties as the specification words them\<close>

text \<open>
  The divergence estimate in the words of the specification: over the active axes
  \<open>1, ..., ndim\<close> (of the three there are), the flux of the component of \<open>B\<close> along the
  axis at the right face minus the flux at the left face, divided by the grid spacing
  along that axis at the cell.
\<close>

definition flux_difference :: "(Real \<Rightarrow> Real) \<Rightarrow> MeshBlockData \<Rightarrow> nat \<Rightarrow> int \<Rightarrow> int \<Rightarrow> int \<Rightarrow> Real" where
  "flux_difference rnd u a k j i =
     fsub rnd
       (cons_B_flux u a (a - 1) (if a = 3 then k + 1 else k) (if a = 2 then j + 1 else j)
                                (if a = 1 then i + 1 else i))
       (cons_B_flux u a (a - 1) k j i)"

definition spacing :: "Coords \<Rightarrow> nat \<Rightarrow> int \<Rightarrow> int \<Rightarrow> int \<Rightarrow> Real" where
  "spacing G a k j i = (if a = 1 then dx1v G i else if a = 2 then dx2v G j else dx3v G k)"

definition active_axes :: "int \<Rightarrow> nat list" where
  "active_axes nd = filter (\<lambda>a. int a \<le> nd) [1, 2, 3]"

text \<open>The sum is taken in the order of the axes, each addition rounded.\<close>

definition flux_divergence :: "(Real \<Rightarrow> Real) \<Rightarrow> int \<Rightarrow> MeshBlockData \<Rightarrow> int \<Rightarrow> int \<Rightarrow> int \<Rightarrow> Real" where
  "flux_divergence rnd nd u k j i =
     (case map (\<lambda>a. fdiv rnd (flux_difference rnd u a k j i) (spacing (coords u) a k j i))
             (active_axes nd) of
        [] \<Rightarrow> 0
      | t # ts \<Rightarrow> foldl (fadd rnd) t ts)"





text \<open>
  The cells the specification includes in the maximum: every local block, the interior
  without its last layer along axis 1 and axis 2, and without its last layer along axis 3
  when \<open>ndim > 2\<close>.
\<close>

definition MaxDivergence_cells :: "MeshData \<Rightarrow> (nat \<times> int \<times> int \<times> int) set" where
  "MaxDivergence_cells md =
     {0..<length (blocks md)}
     \<times> {range_s (md_GetBoundsK md interior_dom)..
          (if ndim md > 2 then range_e (md_GetBoundsK md interior_dom) - 1
           else range_e (md_GetBoundsK md interior_dom))}
     \<times> {range_s (md_GetBoundsJ md interior_dom)..range_e (md_GetBoundsJ md interior_dom) - 1}
     \<times> {range_s (md_GetBoundsI md interior_dom)..range_e (md_GetBoundsI md interior_dom) - 1}"

definition divergence_at :: "(Real \<Rightarrow> Real) \<Rightarrow> MeshData \<Rightarrow> nat \<times> int \<times> int \<times> int \<Rightarrow> Real" where
  "divergence_at rnd md c =
     (case c of (b, k, j, i) \<Rightarrow> flux_divergence rnd (ndim md) (blocks md ! b) k j i)"

text \<open>
  The result of \<^verbatim>\<open>UtoP\<close> in closed form, for a set \<open>S\<close> of cells: inside \<open>S\<close> the
  primitive fields are the conserved ones divided by the determinant, outside they are
  as before.
\<close>

definition UtoP_closed :: "(Real \<Rightarrow> Real) \<Rightarrow> MeshBlockData \<Rightarrow> (int \<times> int \<times> int) set \<Rightarrow> MeshBlockData" where
  "UtoP_closed rnd rc S =
     rc\<lparr>prims_B := (\<lambda>v k j i. if v < NVEC \<and> (k, j, i) \<in> S
                                then fdiv rnd (cons_B rc v k j i) (gdet (coords rc) center j i)
                                else prims_B rc v k j i),
        prims_psi_cd := (\<lambda>k j i. if (k, j, i) \<in> S
                                then fdiv rnd (cons_psi_cd rc k j i) (gdet (coords rc) center j i)
                                else prims_psi_cd rc k j i)\<rparr>"

text \<open>
  The source term of \<open>psi\<close> in the words of the specification: the second lapse
  gradient is divided by the spacing of axis 2 at the second-axis index \<open>j\<close>.  The
  lapse quantity at a face is \<open>(1 / sqrt (- gcon 0 0)) / gdet\<close>.  Every operation is
  rounded.
\<close>

definition lapse_quantity :: "(Real \<Rightarrow> Real) \<Rightarrow> Coords \<Rightarrow> Loci \<Rightarrow> int \<Rightarrow> int \<Rightarrow> Real" where
  "lapse_quantity rnd G l j i = fdiv rnd (fdiv rnd 1 (fsqrt rnd (- gcon G l j i 0 0))) (gdet G l j i)"

definition psi_source_spec :: "(Real \<Rightarrow> Real) \<Rightarrow> Real \<Rightarrow> MeshBlockData \<Rightarrow> int \<Rightarrow> int \<Rightarrow> int \<Rightarrow> Real" where
  "psi_source_spec rnd lam u k j i =
     (let G = coords u
      in fsub rnd
           (fadd rnd
              (fmul rnd (cons_B u V1 k j i)
                 (fdiv rnd (fsub rnd (lapse_quantity rnd G face1 j (i + 1)) (lapse_quantity rnd G face1 j i))
                    (dx1v G i)))
              (fmul rnd (cons_B u V2 k j i)
                 (fdiv rnd (fsub rnd (lapse_quantity rnd G face2 (j + 1) i) (lapse_quantity rnd G face2 j i))
                    (dx2v G j))))
           (fmul rnd (fmul rnd lam (fdiv rnd 1 (fsqrt rnd (- gcon G center j i 0 0))))
              (cons_psi_cd u k j i)))"

text \<open>
  The keys of the parameters of GRMHD that \<^verbatim>\<open>InitializeRest\<close> inserts under a guard.
\<close>

definition rest_keys :: "string set" where
  "rest_keys = {''rho0'', ''v0'', ''u0'', ''q'', ''context_boundaries''}"

text \<open>
  Packages on which no lookup of \<^verbatim>\<open>InitializeRest\<close> and \<^verbatim>\<open>SetRest\<close> throws: GRMHD is
  loaded and holds, under each key the functions read, nothing or a value of the type
  read; Globals holds the time and the last step; when Electrons is loaded it holds
  \<^verbatim>\<open>fel_0\<close> and \<^verbatim>\<open>gamma_e\<close>.
\<close>

definition real_or_absent :: "Params \<Rightarrow> string \<Rightarrow> bool" where
  "real_or_absent g key = (case g key of None \<Rightarrow> True | Some (PReal r) \<Rightarrow> True | Some _ \<Rightarrow> False)"

definition bool_or_absent :: "Params \<Rightarrow> string \<Rightarrow> bool" where
  "bool_or_absent g key = (case g key of None \<Rightarrow> True | Some (PBool b) \<Rightarrow> True | Some _ \<Rightarrow> False)"

definition rest_packages_ok :: "Packages \<Rightarrow> bool" where
  "rest_packages_ok pk =
     (case pk ''GRMHD'' of
        None \<Rightarrow> False
      | Some g \<Rightarrow>
          real_or_absent g ''rho0'' \<and> real_or_absent g ''v0'' \<and> real_or_absent g ''u0'' \<and>
          real_or_absent g ''q'' \<and> bool_or_absent g ''context_boundaries'' \<and>
          Param_Real pk ''Globals'' ''time'' \<noteq> None \<and>
          Param_Real pk ''Globals'' ''dt_last'' \<noteq> None \<and>
          (pk ''Electrons'' \<noteq> None \<longrightarrow>
             Param_Real pk ''Electrons'' ''fel_0'' \<noteq> None \<and>
             Param_Real pk ''Electrons'' ''gamma_e'' \<noteq> None \<and>
             real_or_absent g ''ke0''))"

section \<open>Concrete inputs\<close>

text \<open>
  A flat geometry with unit spacings, a block of zero fields on it, and a mesh of one
  block; the inputs below vary them.
\<close>

definition ex_range :: "int \<Rightarrow> int \<Rightarrow> IndexRange" where
  "ex_range a b = \<lparr>range_s = a, range_e = b\<rparr>"

definition ex_shape :: IndexShape where
  "ex_shape = \<lparr>GetBoundsI = (\<lambda>d. ex_range 0 0), GetBoundsJ = (\<lambda>d. ex_range 0 0),
                GetBoundsK = (\<lambda>d. ex_range 0 0)\<rparr>"

definition ex_gcon :: "Loci \<Rightarrow> int \<Rightarrow> int \<Rightarrow> nat \<Rightarrow> nat \<Rightarrow> Real" where
  "ex_gcon l j i mu nu = (if mu = nu then (if mu = 0 then - 1 else 1) else 0)"

definition ex_coords :: Coords where
  "ex_coords = \<lparr>gcon = ex_gcon, gdet = (\<lambda>l j i. 1), dx1v = (\<lambda>i. 1), dx2v = (\<lambda>j. 1),
                 dx3v = (\<lambda>k. 1)\<rparr>"

definition ex_packages :: Packages where
  "ex_packages = [''B_CD'' \<mapsto> [''damping'' \<mapsto> PReal (1 / 10)]]"

definition ex_block :: MeshBlockData where
  "ex_block = \<lparr>pmy_mesh_ndim = 2, coords = ex_coords, cellbounds = ex_shape, c_cellbounds = ex_shape,
     packages = ex_packages, cons_B = (\<lambda>v k j i. 0), prims_B = (\<lambda>v k j i. 0),
     cons_psi_cd = (\<lambda>k j i. 0), prims_psi_cd = (\<lambda>k j i. 0),
     cons_B_flux = (\<lambda>d v k j i. 0), cons_psi_cd_flux = (\<lambda>d k j i. 0),
     prims_rho = (\<lambda>k j i. 0), prims_u = (\<lambda>k j i. 0), prims_uvec = (\<lambda>v k j i. 0),
     prims_Ktot = (\<lambda>k j i. 0), prims_Kel_Constant = (\<lambda>k j i. 0)\<rparr>"

definition ex_mesh :: "int \<Rightarrow> IndexRange \<Rightarrow> IndexRange \<Rightarrow> IndexRange \<Rightarrow> MeshBlockData \<Rightarrow> MeshData" where
  "ex_mesh nd kr jr ir blk = \<lparr>ndim = nd, mesh_packages = ex_packages,
     md_GetBoundsI = (\<lambda>d. ir), md_GetBoundsJ = (\<lambda>d. jr), md_GetBoundsK = (\<lambda>d. kr),
     blocks = [blk]\<rparr>"

text \<open>
  A manufactured flux of \<open>B\<close>: along axis 1 the flux of the first component grows by
  \<open>kk\<close> times the spacing 2 from one face to the next; all other fluxes are zero.
\<close>

definition ex_flux_block :: "Real \<Rightarrow> MeshBlockData" where
  "ex_flux_block kk =
     ex_block\<lparr>coords := ex_coords\<lparr>dx1v := (\<lambda>i. 2)\<rparr>,
              cons_B_flux := (\<lambda>d v k j i. if d = 1 \<and> v = 0 then kk * 2 * real_of_int i else 0)\<rparr>"

text \<open>A block of a one-dimensional mesh with conserved fields 6 and 8 and determinant 2.\<close>

definition ex_utop_block :: MeshBlockData where
  "ex_utop_block =
     ex_block\<lparr>pmy_mesh_ndim := 1, coords := ex_coords\<lparr>gdet := (\<lambda>l j i. 2)\<rparr>,
              cons_B := (\<lambda>v k j i. 6), cons_psi_cd := (\<lambda>k j i. 8)\<rparr>"

text \<open>
  A state whose flux of \<open>psi\<close> along axis 1 is 1 at the right face of the cell
  \<open>(0, 0, 0)\<close> and 0 at its left face; everything else is zero.
\<close>

definition ex_psi_flux_block :: MeshBlockData where
  "ex_psi_flux_block = ex_block\<lparr>cons_psi_cd_flux := (\<lambda>d k j i. if d = 1 \<and> i = 1 then 1 else 0)\<rparr>"

text \<open>
  A state on a geometry whose spacing along axis 2 is 2 at the index 1 and 1 elsewhere,
  and whose determinant at the faces of axis 2 is 1/2 at \<open>j = 2\<close> and 1 elsewhere; the
  second component of \<open>B\<close> is 4, all fluxes are zero.  The interior is the single cell
  \<open>(k, j, i) = (0, 1, 0)\<close>.
\<close>

definition ex_dx2_block :: MeshBlockData where
  "ex_dx2_block =
     ex_block\<lparr>coords := ex_coords\<lparr>dx2v := (\<lambda>j. if j = 1 then 2 else 1),
                                   gdet := (\<lambda>l j i. if l = face2 \<and> j = 2 then 1 / 2 else 1)\<rparr>,
              cons_B := (\<lambda>v k j i. if v = 1 then 4 else 0)\<rparr>"

text \<open>
  Inputs of the rest problem: conversions that read every text as 0 and false, a block
  whose package GRMHD already holds \<open>rho0 = 5\<close>, and an empty input file.
\<close>

definition ex_conv :: pin_conv where
  "ex_conv = \<lparr>atof = (\<lambda>s. 0), atob = (\<lambda>s. False), ftoa = (\<lambda>x. ''''), btoa = (\<lambda>b. '''')\<rparr>"

definition ex_rest_block :: MeshBlockData where
  "ex_rest_block =
     ex_block\<lparr>packages := [''GRMHD'' \<mapsto> [''rho0'' \<mapsto> PReal 5],
                            ''Globals'' \<mapsto> [''time'' \<mapsto> PReal 0, ''dt_last'' \<mapsto> PReal 0]]\<rparr>"

text \<open>
  The double nearest to 1/10, three times it rounded to a double, and the double just
  above the first.
\<close>

definition ex_tenth :: Real where
  "ex_tenth = 3602879701896397 / 36028797018963968"

definition ex_three_tenths :: Real where
  "ex_three_tenths = 5404319552844596 / 18014398509481984"

definition ex_tenth_up :: Real where
  "ex_tenth_up = 7205759403792795 / 72057594037927936"







section \<open>Rounding\<close>


lemma binary64_zero: "binary64 0 = 0"
  by (simp add: binary64_def)

text \<open>The value of \<open>binary64\<close> at a number whose binary exponent is known.\<close>

lemma binary64_eval:
  assumes "x \<noteq> 0" and "2 powr of_int e \<le> \<bar>x\<bar>" and "\<bar>x\<bar> < 2 powr (of_int e + 1)"
  shows "binary64 x =
           sgn x * (of_int (round_half_even (\<bar>x\<bar> / 2 powr (of_int e - 52))) * 2 powr (of_int e - 52))"
proof -
  have "\<lfloor>log 2 \<bar>x\<bar>\<rfloor> = e"
    using assms by (subst floor_log_eq_powr_iff) simp_all
  then show ?thesis using assms(1) by (simp add: binary64_def Let_def)
qed







lemma binary64_one_tenth: "binary64 (1 / 10) = ex_tenth"
  by (subst binary64_eval[where e = "- 4"])
     (simp_all add: powr_minus round_half_even_def ex_tenth_def)

lemma binary64_three_tenths: "binary64 (ex_tenth * 3) = ex_three_tenths"
  by (subst binary64_eval[where e = "- 2"])
     (simp_all add: powr_minus round_half_even_def ex_tenth_def ex_three_tenths_def)

lemma binary64_tenth_up: "binary64 (ex_three_tenths / 3) = ex_tenth_up"
  by (subst binary64_eval[where e = "- 4"])
     (simp_all add: powr_minus round_half_even_def ex_three_tenths_def ex_tenth_up_def)

lemma binary64_tenth_up_fixed: "binary64 ex_tenth_up = ex_tenth_up"
  by (subst binary64_eval[where e = "- 4"])
     (simp_all add: powr_minus round_half_even_def ex_tenth_up_def)



lemma binary64_one: "binary64 1 = 1"
  by (subst binary64_eval[where e = 0]) (simp_all add: powr_minus round_half_even_def)

lemma binary64_two: "binary64 2 = 2"
  by (subst binary64_eval[where e = 1]) (simp_all add: powr_minus round_half_even_def)

lemma binary64_three: "binary64 3 = 3"
  by (subst binary64_eval[where e = 1]) (simp_all add: powr_minus round_half_even_def)

lemma binary64_four: "binary64 4 = 4"
  by (subst binary64_eval[where e = 2]) (simp_all add: powr_minus round_half_even_def)

lemma binary64_half: "binary64 (1 / 2) = 1 / 2"
  by (subst binary64_eval[where e = "- 1"]) (simp_all add: powr_minus round_half_even_def)





lemmas binary64_values = binary64_zero binary64_one binary64_two binary64_three binary64_four binary64_half
  binary64_one_tenth binary64_three_tenths binary64_tenth_up binary64_tenth_up_fixed

section \<open>Arrays and cell lists\<close>

lemma set_cells3:
  "set (cells3 kr jr ir) =
     {range_s kr..range_e kr} \<times> {range_s jr..range_e jr} \<times> {range_s ir..range_e ir}"
  by (auto simp: cells3_def)



lemma upd3_apply: "upd3 A k j i x k' j' i' = (if (k', j', i') = (k, j, i) then x else A k' j' i')"
  by (simp add: upd3_def)

lemma upd4_apply:
  "upd4 A v k j i x v' k' j' i' = (if v' = v \<and> (k', j', i') = (k, j, i) then x else A v' k' j' i')"
  by (simp add: upd4_def upd3_apply)

lemma upt_NVEC: "[0..<NVEC] = [0, 1, 2]"
  by (simp add: NVEC_def upt_rec)

lemmas arith_defs = fadd_def fsub_def fmul_def fdiv_def fsqrt_def

lemmas ex_defs = ex_range_def ex_shape_def ex_gcon_def ex_coords_def ex_packages_def ex_block_def
  ex_mesh_def ex_flux_block_def ex_utop_block_def ex_psi_flux_block_def ex_dx2_block_def

section \<open>The divergence estimate\<close>


lemma divb_local_spec:
  "2 \<le> nd \<Longrightarrow> divb_local rnd nd u k j i = flux_divergence rnd nd u k j i"
  by (simp add: divb_local_def flux_divergence_def active_axes_def flux_difference_def spacing_def
      Let_def V1_def V2_def V3_def)


text \<open>
  The condition on the flux difference along axis 1 holds in particular when the two
  face fluxes differ by \<open>kk\<close> times the spacing as real numbers.
\<close>

lemma manufactured_from_exact_difference:
  assumes "cons_B_flux u 1 0 k j (i + 1) - cons_B_flux u 1 0 k j i = kk * dx1v (coords u) i"
  shows "flux_difference rnd u 1 k j i = fmul rnd kk (dx1v (coords u) i)"
  using assms by (simp add: flux_difference_def fsub_def fmul_def)

section \<open>MaxDivB\<close>

lemma set_MaxDivB_cells: "set (MaxDivB_cells md) = MaxDivergence_cells md"
  by (auto simp: MaxDivB_cells_def MaxDivergence_cells_def Let_def set_cells3)

lemma finite_MaxDivergence_cells: "finite (MaxDivergence_cells md)"
  by (simp add: MaxDivergence_cells_def)

lemma foldl_MaxDivB_step:
  "foldl (MaxDivB_step rnd md) a cs =
     Max (insert a ((\<lambda>c. divb_local rnd (ndim md) (blocks md ! fst c) (fst (snd c)) (fst (snd (snd c)))
                          (snd (snd (snd c)))) ` set cs))"
proof (induction cs arbitrary: a)
  case Nil
  show ?case by simp
next
  case (Cons c cs)
  let ?d = "\<lambda>c. divb_local rnd (ndim md) (blocks md ! fst c) (fst (snd c)) (fst (snd (snd c)))
                   (snd (snd (snd c)))"
  have step: "MaxDivB_step rnd md a c = max a (?d c)"
    by (cases c) (auto simp: MaxDivB_step_def Let_def max_def)
  have "foldl (MaxDivB_step rnd md) a (c # cs) = Max (insert (max a (?d c)) (?d ` set cs))"
    using Cons.IH[of "max a (?d c)"] by (simp add: step)
  also have "\<dots> = Max (insert a (insert (?d c) (?d ` set cs)))"
  proof (cases "set cs = {}")
    case True
    then show ?thesis by (simp add: max.commute)
  next
    case False
    then show ?thesis by (simp add: max.assoc)
  qed
  finally show ?case by (simp add: insert_commute)
qed

lemma MaxDivB_general:
  assumes nd: "2 \<le> ndim md"
  shows "MaxDivB rnd a md = Max (insert a (divergence_at rnd md ` MaxDivergence_cells md))"
proof -
  let ?d = "\<lambda>c. divb_local rnd (ndim md) (blocks md ! fst c) (fst (snd c)) (fst (snd (snd c)))
                   (snd (snd (snd c)))"
  have "?d c = divergence_at rnd md c" for c
    by (cases c) (simp add: divergence_at_def divb_local_spec[OF nd])
  then have "?d ` MaxDivergence_cells md = divergence_at rnd md ` MaxDivergence_cells md"
    by simp
  moreover have "MaxDivB rnd a md = Max (insert a (?d ` MaxDivergence_cells md))"
    using nd by (simp add: MaxDivB_def foldl_MaxDivB_step set_MaxDivB_cells)
  ultimately show ?thesis by simp
qed

lemma MaxDivB_nonempty:
  assumes nd: "2 \<le> ndim md" and ne: "MaxDivergence_cells md \<noteq> {}"
    and lo: "\<forall>c\<in>MaxDivergence_cells md. a \<le> divergence_at rnd md c"
  shows "MaxDivB rnd a md = Max (divergence_at rnd md ` MaxDivergence_cells md)"
proof -
  let ?S = "divergence_at rnd md ` MaxDivergence_cells md"
  have fin: "finite ?S" and ne': "?S \<noteq> {}"
    using ne by (simp_all add: finite_MaxDivergence_cells)
  obtain c where c: "c \<in> MaxDivergence_cells md" using ne by blast
  have "a \<le> divergence_at rnd md c" using lo c by blast
  also have "divergence_at rnd md c \<le> Max ?S" using fin c by simp
  finally have "a \<le> Max ?S" .
  then have "Max (insert a ?S) = Max ?S"
    using fin ne' by (simp add: max_def)
  then show ?thesis
    by (simp add: MaxDivB_general[OF nd])
qed

lemma ex_flux_cells:
  "MaxDivergence_cells (ex_mesh 2 (ex_range 0 0) (ex_range 0 1) (ex_range 0 1) blk) = {(0, 0, 0, 0)}"
  by (auto simp: MaxDivergence_cells_def ex_mesh_def ex_range_def)

lemma ex_flux_divergence:
  "divergence_at exact_round (ex_mesh 2 (ex_range 0 0) (ex_range 0 1) (ex_range 0 1) (ex_flux_block kk))
     (0, 0, 0, 0) = kk"
  by (simp add: divergence_at_def flux_divergence_def active_axes_def flux_difference_def
      spacing_def ex_defs arith_defs exact_round_def)

text \<open>
  Claim C4.  With fewer than two dimensions \<^verbatim>\<open>MaxDivB\<close> returns 0.  Otherwise it returns
  the maximum of the flux-difference divergence estimate over all local blocks and over
  the interior cells without the last layer along axis 1 and axis 2, and along axis 3
  when \<open>ndim > 2\<close>; there is at least one such cell, and no estimate lies below the
  identity of the reducer.  This holds for every rounding of the arithmetic.
\<close>

theorem MaxDivB_is_maximum:
  "(ndim md < 2 \<longrightarrow> MaxDivB rnd a md = 0) \<and>
   (2 \<le> ndim md \<longrightarrow> MaxDivergence_cells md \<noteq> {} \<longrightarrow>
      (\<forall>c\<in>MaxDivergence_cells md. a \<le> divergence_at rnd md c) \<longrightarrow>
      MaxDivB rnd a md = Max (divergence_at rnd md ` MaxDivergence_cells md))"
proof (intro conjI impI)
  assume "ndim md < 2"
  then show "MaxDivB rnd a md = 0" by (simp add: MaxDivB_def)
next
  assume "2 \<le> ndim md" and "MaxDivergence_cells md \<noteq> {}"
    and "\<forall>c\<in>MaxDivergence_cells md. a \<le> divergence_at rnd md c"
  then show "MaxDivB rnd a md = Max (divergence_at rnd md ` MaxDivergence_cells md)"
    by (rule MaxDivB_nonempty)
qed

theorem MaxDivB_is_maximum_witness:
  "ndim (ex_mesh 1 (ex_range 0 0) (ex_range 0 1) (ex_range 0 1) (ex_flux_block 3)) < 2
   \<and> MaxDivB exact_round (- 10) (ex_mesh 1 (ex_range 0 0) (ex_range 0 1) (ex_range 0 1) (ex_flux_block 3)) = 0
   \<and> 2 \<le> ndim (ex_mesh 2 (ex_range 0 0) (ex_range 0 1) (ex_range 0 1) (ex_flux_block 3))
   \<and> MaxDivergence_cells (ex_mesh 2 (ex_range 0 0) (ex_range 0 1) (ex_range 0 1) (ex_flux_block 3))
       = {(0, 0, 0, 0)}
   \<and> - 10 \<le> divergence_at exact_round
               (ex_mesh 2 (ex_range 0 0) (ex_range 0 1) (ex_range 0 1) (ex_flux_block 3)) (0, 0, 0, 0)
   \<and> MaxDivB exact_round (- 10)
       (ex_mesh 2 (ex_range 0 0) (ex_range 0 1) (ex_range 0 1) (ex_flux_block 3)) = 3"
proof -
  let ?m1 = "ex_mesh 1 (ex_range 0 0) (ex_range 0 1) (ex_range 0 1) (ex_flux_block 3)"
  let ?m2 = "ex_mesh 2 (ex_range 0 0) (ex_range 0 1) (ex_range 0 1) (ex_flux_block 3)"
  have n1: "ndim ?m1 < 2" and n2: "2 \<le> ndim ?m2"
    by (simp_all add: ex_mesh_def)
  have cs: "MaxDivergence_cells ?m2 = {(0, 0, 0, 0)}"
    by (rule ex_flux_cells)
  have lo: "- 10 \<le> divergence_at exact_round ?m2 (0, 0, 0, 0)"
    by (simp add: ex_flux_divergence)
  have mx: "Max (divergence_at exact_round ?m2 ` MaxDivergence_cells ?m2) = 3"
    by (simp add: ex_flux_cells ex_flux_divergence)
  show ?thesis
    using MaxDivB_is_maximum[of ?m1 exact_round "- 10"] MaxDivB_is_maximum[of ?m2 exact_round "- 10"]
      n1 n2 cs lo mx
    by simp
qed

text \<open>
  Claim C10.  \<^verbatim>\<open>MaxDivB\<close> takes the maximum of the signed estimate, with no absolute
  value: when the estimate is negative at every included cell, the result is not
  positive (the identity of the reducer is not positive either).  With at least two
  dimensions, an included cell and no estimate below the identity, the result is the
  largest estimate, which is negative, so the size of the violation is not reported.
  This holds for every rounding of the arithmetic.
\<close>

theorem MaxDivB_signed:
  assumes neg: "\<forall>c\<in>MaxDivergence_cells md. divergence_at rnd md c < 0" and a: "a \<le> 0"
  shows "MaxDivB rnd a md \<le> 0
       \<and> (2 \<le> ndim md \<longrightarrow> MaxDivergence_cells md \<noteq> {} \<longrightarrow>
          (\<forall>c\<in>MaxDivergence_cells md. a \<le> divergence_at rnd md c) \<longrightarrow>
          MaxDivB rnd a md = Max (divergence_at rnd md ` MaxDivergence_cells md) \<and> MaxDivB rnd a md < 0)"
proof (intro conjI impI)
  show "MaxDivB rnd a md \<le> 0"
  proof (cases "ndim md < 2")
    case True
    then show ?thesis by (simp add: MaxDivB_def)
  next
    case False
    then have nd: "2 \<le> ndim md" by simp
    have "\<forall>x\<in>insert a (divergence_at rnd md ` MaxDivergence_cells md). x \<le> 0"
      using neg a by auto
    then show ?thesis
      by (simp add: MaxDivB_general[OF nd] finite_MaxDivergence_cells)
  qed
next
  assume nd: "2 \<le> ndim md" and ne: "MaxDivergence_cells md \<noteq> {}"
    and lo: "\<forall>c\<in>MaxDivergence_cells md. a \<le> divergence_at rnd md c"
  let ?S = "divergence_at rnd md ` MaxDivergence_cells md"
  show eq: "MaxDivB rnd a md = Max ?S"
    by (rule MaxDivB_nonempty[OF nd ne lo])
  have "Max ?S \<in> ?S"
    using ne by (intro Max_in) (simp_all add: finite_MaxDivergence_cells)
  then have "Max ?S < 0" using neg by auto
  then show "MaxDivB rnd a md < 0" using eq by simp
qed

theorem MaxDivB_signed_witness:
  "MaxDivergence_cells (ex_mesh 2 (ex_range 0 0) (ex_range 0 1) (ex_range 0 1) (ex_flux_block (- 3)))
     = {(0, 0, 0, 0)}
   \<and> divergence_at exact_round
       (ex_mesh 2 (ex_range 0 0) (ex_range 0 1) (ex_range 0 1) (ex_flux_block (- 3))) (0, 0, 0, 0) = - 3
   \<and> (- 10 :: real) \<le> 0
   \<and> 2 \<le> ndim (ex_mesh 2 (ex_range 0 0) (ex_range 0 1) (ex_range 0 1) (ex_flux_block (- 3)))
   \<and> MaxDivB exact_round (- 10)
       (ex_mesh 2 (ex_range 0 0) (ex_range 0 1) (ex_range 0 1) (ex_flux_block (- 3))) \<le> 0
   \<and> MaxDivB exact_round (- 10)
       (ex_mesh 2 (ex_range 0 0) (ex_range 0 1) (ex_range 0 1) (ex_flux_block (- 3))) = - 3"
proof -
  let ?m = "ex_mesh 2 (ex_range 0 0) (ex_range 0 1) (ex_range 0 1) (ex_flux_block (- 3))"
  have cs: "MaxDivergence_cells ?m = {(0, 0, 0, 0)}"
    by (rule ex_flux_cells)
  have dv: "divergence_at exact_round ?m (0, 0, 0, 0) = - 3"
    by (rule ex_flux_divergence)
  have neg: "\<forall>c\<in>MaxDivergence_cells ?m. divergence_at exact_round ?m c < 0"
    by (simp add: cs dv)
  have a: "(- 10 :: real) \<le> 0" by simp
  have n2: "2 \<le> ndim ?m" by (simp add: ex_mesh_def)
  show ?thesis
    using MaxDivB_signed[OF neg a] cs dv n2 by simp
qed

section \<open>UtoP\<close>

lemma UtoP_cell_closed:
  "UtoP_cell rnd (UtoP_closed rnd rc S) c = UtoP_closed rnd rc (insert c S)"
proof (cases c)
  case (fields k j i)
  show ?thesis
    unfolding fields UtoP_cell_def UtoP_closed_def upt_NVEC
    by (simp add: Let_def NVEC_def fun_eq_iff upd4_apply upd3_apply less_Suc_eq eval_nat_numeral)
qed

lemma UtoP_closed_empty: "UtoP_closed rnd rc {} = rc"
  by (simp add: UtoP_closed_def)

lemma foldl_UtoP_cell:
  "foldl (UtoP_cell rnd) (UtoP_closed rnd rc S) cs = UtoP_closed rnd rc (set cs \<union> S)"
  by (induction cs arbitrary: S) (simp_all add: UtoP_cell_closed)

lemma UtoP_eq_closed:
  "UtoP rnd rc domain coarse =
     UtoP_closed rnd rc
       ({range_s (GetBoundsK (if coarse then c_cellbounds rc else cellbounds rc) domain)..
         range_e (GetBoundsK (if coarse then c_cellbounds rc else cellbounds rc) domain)}
        \<times> {range_s (GetBoundsJ (if coarse then c_cellbounds rc else cellbounds rc) domain)..
            range_e (GetBoundsJ (if coarse then c_cellbounds rc else cellbounds rc) domain)}
        \<times> {range_s (GetBoundsI (if coarse then c_cellbounds rc else cellbounds rc) domain)..
            range_e (GetBoundsI (if coarse then c_cellbounds rc else cellbounds rc) domain)})"
  using foldl_UtoP_cell[of rnd rc "{}"] by (simp add: UtoP_def Let_def UtoP_closed_empty set_cells3)

text \<open>
  What \<^verbatim>\<open>UtoP\<close> writes at a cell of the requested domain, whatever the number of
  dimensions of the mesh.
\<close>

lemma UtoP_at_cell:
  assumes "k \<in> {range_s (GetBoundsK (if coarse then c_cellbounds rc else cellbounds rc) domain)..
                  range_e (GetBoundsK (if coarse then c_cellbounds rc else cellbounds rc) domain)}"
    and "j \<in> {range_s (GetBoundsJ (if coarse then c_cellbounds rc else cellbounds rc) domain)..
              range_e (GetBoundsJ (if coarse then c_cellbounds rc else cellbounds rc) domain)}"
    and "i \<in> {range_s (GetBoundsI (if coarse then c_cellbounds rc else cellbounds rc) domain)..
              range_e (GetBoundsI (if coarse then c_cellbounds rc else cellbounds rc) domain)}"
  shows "(\<forall>v<NVEC. prims_B (UtoP rnd rc domain coarse) v k j i
                      = fdiv rnd (cons_B rc v k j i) (gdet (coords rc) center j i))
       \<and> prims_psi_cd (UtoP rnd rc domain coarse) k j i
           = fdiv rnd (cons_psi_cd rc k j i) (gdet (coords rc) center j i)"
  using assms by (simp add: UtoP_eq_closed UtoP_closed_def)





section \<open>AddSource\<close>

lemmas kernel_defs = AddSource_def AddSource_cell_def AddSource_B_def divB_AddSource_def
  lapse_def dalpha1_def dalpha2_def Param_Real_def cells3_def upd3_def upd4_def Let_def upt_NVEC
  V1_def V2_def V3_def X1DIR_def X2DIR_def X3DIR_def arith_defs









lemma AddSource_cell_dudt_B: "cons_B (snd (AddSource_cell rnd nd lam st c)) = cons_B (snd st)"
  by (cases st; cases c) (simp add: AddSource_cell_def Let_def)

lemma foldl_AddSource_cell_dudt_B:
  "cons_B (snd (foldl (AddSource_cell rnd nd lam) st cs)) = cons_B (snd st)"
  by (induction cs arbitrary: st) (simp_all add: AddSource_cell_dudt_B)

text \<open>
  Whatever the input, \<^verbatim>\<open>AddSource\<close> leaves \<^verbatim>\<open>cons.B\<close> of the rate-of-change snapshot
  as it was.
\<close>

lemma AddSource_keeps_dudt_B:
  assumes run: "AddSource rnd md mdudt = Some (st, md', mdudt')"
    and len: "length (blocks mdudt) = length (blocks md)"
  shows "map cons_B (blocks mdudt') = map cons_B (blocks mdudt)"
proof (cases "ndim md < 2")
  case True
  then show ?thesis using run by (simp add: AddSource_def)
next
  case False
  then obtain lam where lam: "Param_Real (mesh_packages md) ''B_CD'' ''damping'' = Some lam"
    using run by (auto simp: AddSource_def split: option.splits)
  let ?f = "\<lambda>st. foldl (AddSource_cell rnd (ndim md) lam) st
        (cells3 (md_GetBoundsK md interior_dom) (md_GetBoundsJ md interior_dom)
           (md_GetBoundsI md interior_dom))"
  have "mdudt' = mdudt\<lparr>blocks := map snd (map ?f (zip (blocks md) (blocks mdudt)))\<rparr>"
    using run False lam by (simp add: AddSource_def Let_def)
  then have "blocks mdudt' = map snd (map ?f (zip (blocks md) (blocks mdudt)))"
    by simp
  then have "map cons_B (blocks mdudt') = map cons_B (map snd (zip (blocks md) (blocks mdudt)))"
    by (simp add: foldl_AddSource_cell_dudt_B comp_def)
  also have "map snd (zip (blocks md) (blocks mdudt)) = blocks mdudt"
    using len by (simp add: map_snd_zip)
  finally show ?thesis .
qed

section \<open>The divergence estimate in AddSource and MaxDivB\<close>











text \<open>
  Claim C2, on the state whose flux of \<open>psi\<close> along axis 1 differs by 1 across the cell
  \<open>(0, 0, 0)\<close>, in two dimensions: \<^verbatim>\<open>AddSource\<close> succeeds, the first component of
  \<^verbatim>\<open>cons.B\<close> of the input state goes from 0 to 1 at that cell, and \<^verbatim>\<open>cons.B\<close> of the
  rate-of-change snapshot stays 0 there.  This is so in exact arithmetic and in doubles.
\<close>

theorem AddSource_writes_state_B:
  "(case AddSource exact_round
           (ex_mesh 2 (ex_range 0 0) (ex_range 0 0) (ex_range 0 0) ex_psi_flux_block)
           (ex_mesh 2 (ex_range 0 0) (ex_range 0 0) (ex_range 0 0) ex_block) of
      None \<Rightarrow> False
    | Some (st, md', mdudt') \<Rightarrow>
        st = complete_ts \<and> cons_B (blocks md' ! 0) V1 0 0 0 = 1 \<and>
        cons_B (blocks mdudt' ! 0) V1 0 0 0 = 0)
   \<and> (case AddSource binary64
           (ex_mesh 2 (ex_range 0 0) (ex_range 0 0) (ex_range 0 0) ex_psi_flux_block)
           (ex_mesh 2 (ex_range 0 0) (ex_range 0 0) (ex_range 0 0) ex_block) of
      None \<Rightarrow> False
    | Some (st, md', mdudt') \<Rightarrow>
        st = complete_ts \<and> cons_B (blocks md' ! 0) V1 0 0 0 = 1 \<and>
        cons_B (blocks mdudt' ! 0) V1 0 0 0 = 0)
   \<and> cons_B (blocks (ex_mesh 2 (ex_range 0 0) (ex_range 0 0) (ex_range 0 0) ex_psi_flux_block) ! 0)
        V1 0 0 0 = 0"
proof (intro conjI)
  show "case AddSource exact_round
           (ex_mesh 2 (ex_range 0 0) (ex_range 0 0) (ex_range 0 0) ex_psi_flux_block)
           (ex_mesh 2 (ex_range 0 0) (ex_range 0 0) (ex_range 0 0) ex_block) of
      None \<Rightarrow> False
    | Some (st, md', mdudt') \<Rightarrow>
        st = complete_ts \<and> cons_B (blocks md' ! 0) V1 0 0 0 = 1 \<and>
        cons_B (blocks mdudt' ! 0) V1 0 0 0 = 0"
    by (simp add: ex_defs kernel_defs exact_round_def)
  show "case AddSource binary64
           (ex_mesh 2 (ex_range 0 0) (ex_range 0 0) (ex_range 0 0) ex_psi_flux_block)
           (ex_mesh 2 (ex_range 0 0) (ex_range 0 0) (ex_range 0 0) ex_block) of
      None \<Rightarrow> False
    | Some (st, md', mdudt') \<Rightarrow>
        st = complete_ts \<and> cons_B (blocks md' ! 0) V1 0 0 0 = 1 \<and>
        cons_B (blocks mdudt' ! 0) V1 0 0 0 = 0"
    by (simp add: ex_defs kernel_defs binary64_values)
  show "cons_B (blocks (ex_mesh 2 (ex_range 0 0) (ex_range 0 0) (ex_range 0 0) ex_psi_flux_block) ! 0)
        V1 0 0 0 = 0"
    by (simp add: ex_defs V1_def)
qed

text \<open>
  Claim C6, on the state whose spacing along axis 2 is 1 at the index 0 and 2 at the
  index 1, at the interior cell \<open>(k, j, i) = (0, 1, 0)\<close> in two dimensions: \<^verbatim>\<open>AddSource\<close>
  adds 4 to the rate of change of \<open>psi\<close>, having divided the second lapse difference by
  the spacing at the first-axis index \<open>i = 0\<close>; the source term with the spacing at the
  second-axis index \<open>j = 1\<close> is 2.  This is so in exact arithmetic and in doubles.
\<close>

theorem AddSource_psi_uses_dx2v_at_i:
  "(case AddSource exact_round
           (ex_mesh 2 (ex_range 0 0) (ex_range 1 1) (ex_range 0 0) ex_dx2_block)
           (ex_mesh 2 (ex_range 0 0) (ex_range 1 1) (ex_range 0 0) ex_block) of
      None \<Rightarrow> False
    | Some (st, md', mdudt') \<Rightarrow>
        st = complete_ts \<and> cons_psi_cd (blocks mdudt' ! 0) 0 1 0 = 0 + 4)
   \<and> psi_source_spec exact_round (1 / 10) ex_dx2_block 0 1 0 = 2
   \<and> (case AddSource binary64
           (ex_mesh 2 (ex_range 0 0) (ex_range 1 1) (ex_range 0 0) ex_dx2_block)
           (ex_mesh 2 (ex_range 0 0) (ex_range 1 1) (ex_range 0 0) ex_block) of
      None \<Rightarrow> False
    | Some (st, md', mdudt') \<Rightarrow>
        st = complete_ts \<and> cons_psi_cd (blocks mdudt' ! 0) 0 1 0 = 0 + 4)
   \<and> psi_source_spec binary64 (1 / 10) ex_dx2_block 0 1 0 = 2
   \<and> dx2v (coords ex_dx2_block) 0 = 1 \<and> dx2v (coords ex_dx2_block) 1 = 2"
proof (intro conjI)
  show "case AddSource exact_round
           (ex_mesh 2 (ex_range 0 0) (ex_range 1 1) (ex_range 0 0) ex_dx2_block)
           (ex_mesh 2 (ex_range 0 0) (ex_range 1 1) (ex_range 0 0) ex_block) of
      None \<Rightarrow> False
    | Some (st, md', mdudt') \<Rightarrow>
        st = complete_ts \<and> cons_psi_cd (blocks mdudt' ! 0) 0 1 0 = 0 + 4"
    by (simp add: ex_defs kernel_defs exact_round_def)
  show "psi_source_spec exact_round (1 / 10) ex_dx2_block 0 1 0 = 2"
    by (simp add: ex_defs psi_source_spec_def lapse_quantity_def V1_def V2_def arith_defs
        exact_round_def)
  show "case AddSource binary64
           (ex_mesh 2 (ex_range 0 0) (ex_range 1 1) (ex_range 0 0) ex_dx2_block)
           (ex_mesh 2 (ex_range 0 0) (ex_range 1 1) (ex_range 0 0) ex_block) of
      None \<Rightarrow> False
    | Some (st, md', mdudt') \<Rightarrow>
        st = complete_ts \<and> cons_psi_cd (blocks mdudt' ! 0) 0 1 0 = 0 + 4"
    by (simp add: ex_defs kernel_defs binary64_values)
  show "psi_source_spec binary64 (1 / 10) ex_dx2_block 0 1 0 = 2"
    by (simp add: ex_defs psi_source_spec_def lapse_quantity_def V1_def V2_def arith_defs
        binary64_values)
  show "dx2v (coords ex_dx2_block) 0 = 1" and "dx2v (coords ex_dx2_block) 1 = 2"
    by (simp_all add: ex_defs)
qed

text \<open>
  Claim C3, as the claim states it, fails for \<^verbatim>\<open>UtoP\<close>: on a block of a
  one-dimensional mesh with the conserved \<open>B\<close> equal to 6 and the determinant 2,
  \<^verbatim>\<open>UtoP\<close> changes the primitive \<open>B\<close> from 0 to 3.
\<close>

theorem UtoP_not_noop_in_1D:
  "pmy_mesh_ndim ex_utop_block < 2
   \<and> prims_B ex_utop_block V1 0 0 0 = 0
   \<and> prims_B (UtoP binary64 ex_utop_block interior_dom False) V1 0 0 0 = 3
   \<and> prims_B (UtoP exact_round ex_utop_block interior_dom False) V1 0 0 0 = 3
   \<and> UtoP binary64 ex_utop_block interior_dom False \<noteq> ex_utop_block
   \<and> UtoP exact_round ex_utop_block interior_dom False \<noteq> ex_utop_block"
proof -
  have b: "prims_B (UtoP binary64 ex_utop_block interior_dom False) V1 0 0 0 = 3"
    by (simp add: UtoP_eq_closed UtoP_closed_def ex_defs V1_def NVEC_def fdiv_def binary64_values)
  have e: "prims_B (UtoP exact_round ex_utop_block interior_dom False) V1 0 0 0 = 3"
    by (simp add: UtoP_eq_closed UtoP_closed_def ex_defs V1_def NVEC_def fdiv_def exact_round_def)
  have z: "prims_B ex_utop_block V1 0 0 0 = 0"
    by (simp add: ex_defs)
  have "UtoP binary64 ex_utop_block interior_dom False \<noteq> ex_utop_block"
    using b z by auto
  moreover have "UtoP exact_round ex_utop_block interior_dom False \<noteq> ex_utop_block"
    using e z by auto
  moreover have "pmy_mesh_ndim ex_utop_block < 2" by (simp add: ex_defs)
  ultimately show ?thesis using b e z by simp
qed

text \<open>
  Claim C3, amended.  With fewer than two dimensions \<^verbatim>\<open>AddSource\<close> returns success at
  once and leaves both snapshots as they were.  \<^verbatim>\<open>UtoP\<close> has no guard on the number of
  dimensions: for every block, whatever its number of dimensions, it sets the primitive
  \<open>B\<close> and the primitive \<open>psi\<close> at every cell of the requested domain to the conserved
  values divided by the determinant at the cell centre.
\<close>

theorem AddSource_noop_below_2D:
  "(ndim md < 2 \<longrightarrow> AddSource rnd md mdudt = Some (complete_ts, md, mdudt))
   \<and> (k \<in> {range_s (GetBoundsK (if coarse then c_cellbounds rc else cellbounds rc) domain)..
            range_e (GetBoundsK (if coarse then c_cellbounds rc else cellbounds rc) domain)} \<longrightarrow>
      j \<in> {range_s (GetBoundsJ (if coarse then c_cellbounds rc else cellbounds rc) domain)..
            range_e (GetBoundsJ (if coarse then c_cellbounds rc else cellbounds rc) domain)} \<longrightarrow>
      i \<in> {range_s (GetBoundsI (if coarse then c_cellbounds rc else cellbounds rc) domain)..
            range_e (GetBoundsI (if coarse then c_cellbounds rc else cellbounds rc) domain)} \<longrightarrow>
      (\<forall>v<NVEC. prims_B (UtoP rnd rc domain coarse) v k j i
                   = fdiv rnd (cons_B rc v k j i) (gdet (coords rc) center j i))
      \<and> prims_psi_cd (UtoP rnd rc domain coarse) k j i
          = fdiv rnd (cons_psi_cd rc k j i) (gdet (coords rc) center j i))"
proof (intro conjI impI)
  assume "ndim md < 2"
  then show "AddSource rnd md mdudt = Some (complete_ts, md, mdudt)"
    by (simp add: AddSource_def)
next
  assume k: "k \<in> {range_s (GetBoundsK (if coarse then c_cellbounds rc else cellbounds rc) domain)..
                    range_e (GetBoundsK (if coarse then c_cellbounds rc else cellbounds rc) domain)}"
    and j: "j \<in> {range_s (GetBoundsJ (if coarse then c_cellbounds rc else cellbounds rc) domain)..
                  range_e (GetBoundsJ (if coarse then c_cellbounds rc else cellbounds rc) domain)}"
    and i: "i \<in> {range_s (GetBoundsI (if coarse then c_cellbounds rc else cellbounds rc) domain)..
                  range_e (GetBoundsI (if coarse then c_cellbounds rc else cellbounds rc) domain)}"
  show "\<forall>v<NVEC. prims_B (UtoP rnd rc domain coarse) v k j i
                    = fdiv rnd (cons_B rc v k j i) (gdet (coords rc) center j i)"
    using UtoP_at_cell[OF k j i, of rnd] by blast
  show "prims_psi_cd (UtoP rnd rc domain coarse) k j i
          = fdiv rnd (cons_psi_cd rc k j i) (gdet (coords rc) center j i)"
    using UtoP_at_cell[OF k j i, of rnd] by blast
qed

theorem AddSource_noop_below_2D_witness:
  "ndim (ex_mesh 1 (ex_range 0 0) (ex_range 0 0) (ex_range 0 0) ex_psi_flux_block) < 2
   \<and> AddSource binary64 (ex_mesh 1 (ex_range 0 0) (ex_range 0 0) (ex_range 0 0) ex_psi_flux_block)
                (ex_mesh 1 (ex_range 0 0) (ex_range 0 0) (ex_range 0 0) ex_block)
       = Some (complete_ts, ex_mesh 1 (ex_range 0 0) (ex_range 0 0) (ex_range 0 0) ex_psi_flux_block,
               ex_mesh 1 (ex_range 0 0) (ex_range 0 0) (ex_range 0 0) ex_block)
   \<and> pmy_mesh_ndim ex_utop_block < 2
   \<and> (0::int) \<in> {range_s (GetBoundsK (if False then c_cellbounds ex_utop_block
                                        else cellbounds ex_utop_block) interior_dom)..
                  range_e (GetBoundsK (if False then c_cellbounds ex_utop_block
                                        else cellbounds ex_utop_block) interior_dom)}
   \<and> (0::int) \<in> {range_s (GetBoundsJ (if False then c_cellbounds ex_utop_block
                                        else cellbounds ex_utop_block) interior_dom)..
                  range_e (GetBoundsJ (if False then c_cellbounds ex_utop_block
                                        else cellbounds ex_utop_block) interior_dom)}
   \<and> (0::int) \<in> {range_s (GetBoundsI (if False then c_cellbounds ex_utop_block
                                        else cellbounds ex_utop_block) interior_dom)..
                  range_e (GetBoundsI (if False then c_cellbounds ex_utop_block
                                        else cellbounds ex_utop_block) interior_dom)}
   \<and> V1 < NVEC
   \<and> prims_B (UtoP binary64 ex_utop_block interior_dom False) V1 0 0 0
       = fdiv binary64 (cons_B ex_utop_block V1 0 0 0) (gdet (coords ex_utop_block) center 0 0)
   \<and> fdiv binary64 (cons_B ex_utop_block V1 0 0 0) (gdet (coords ex_utop_block) center 0 0) = 3
   \<and> prims_psi_cd (UtoP binary64 ex_utop_block interior_dom False) 0 0 0
       = fdiv binary64 (cons_psi_cd ex_utop_block 0 0 0) (gdet (coords ex_utop_block) center 0 0)
   \<and> fdiv binary64 (cons_psi_cd ex_utop_block 0 0 0) (gdet (coords ex_utop_block) center 0 0) = 4"
proof -
  let ?m = "ex_mesh 1 (ex_range 0 0) (ex_range 0 0) (ex_range 0 0) ex_psi_flux_block"
  let ?d = "ex_mesh 1 (ex_range 0 0) (ex_range 0 0) (ex_range 0 0) ex_block"
  let ?u = ex_utop_block
  have n: "ndim ?m < 2" by (simp add: ex_mesh_def)
  have n1: "pmy_mesh_ndim ?u < 2" by (simp add: ex_defs)
  have k: "(0::int) \<in> {range_s (GetBoundsK (if False then c_cellbounds ?u else cellbounds ?u) interior_dom)..
                        range_e (GetBoundsK (if False then c_cellbounds ?u else cellbounds ?u) interior_dom)}"
    and j: "(0::int) \<in> {range_s (GetBoundsJ (if False then c_cellbounds ?u else cellbounds ?u) interior_dom)..
                        range_e (GetBoundsJ (if False then c_cellbounds ?u else cellbounds ?u) interior_dom)}"
    and i: "(0::int) \<in> {range_s (GetBoundsI (if False then c_cellbounds ?u else cellbounds ?u) interior_dom)..
                        range_e (GetBoundsI (if False then c_cellbounds ?u else cellbounds ?u) interior_dom)}"
    by (simp_all add: ex_defs)
  have v: "V1 < NVEC" by (simp add: V1_def NVEC_def)
  have q: "fdiv binary64 (cons_B ?u V1 0 0 0) (gdet (coords ?u) center 0 0) = 3"
    "fdiv binary64 (cons_psi_cd ?u 0 0 0) (gdet (coords ?u) center 0 0) = 4"
    by (simp_all add: ex_defs fdiv_def binary64_values)
  note T = AddSource_noop_below_2D[where md = ?m and rnd = binary64 and mdudt = ?d and k = 0 and j = 0
      and i = 0 and coarse = False and rc = ?u and domain = interior_dom]
  have t1: "AddSource binary64 ?m ?d = Some (complete_ts, ?m, ?d)"
    using T n by blast
  have t2: "prims_B (UtoP binary64 ?u interior_dom False) V1 0 0 0
       = fdiv binary64 (cons_B ?u V1 0 0 0) (gdet (coords ?u) center 0 0)"
    using T k j i v by blast
  have t3: "prims_psi_cd (UtoP binary64 ?u interior_dom False) 0 0 0
       = fdiv binary64 (cons_psi_cd ?u 0 0 0) (gdet (coords ?u) center 0 0)"
    using T k j i by blast
  show ?thesis
    using n t1 n1 k j i v t2 q t3 by (intro conjI)
qed

section \<open>The task list of a stage\<close>

text \<open>
  Claim C7.  The task list of a stage holds the task that estimates the next time step
  exactly when the stage is the last one of the integrator, and the task that checks
  the refinement condition exactly when, in addition, the mesh is adaptive.
\<close>

theorem MakeTaskList_final_stage_tasks:
  "(EstimateTimestep \<in> task_func ` set (snd (MakeTaskList drv stage)))
      = (stage = integrator_nstages drv)
   \<and> (CheckRefinementCondition \<in> task_func ` set (snd (MakeTaskList drv stage)))
      = (stage = integrator_nstages drv \<and> pmesh_adaptive drv)"
  by (simp add: MakeTaskList_def AddTask_def Let_def)

section \<open>The rest problem\<close>

lemma packages_SetRest_cell: "packages (SetRest_cell rho0 u0 v0 rc c) = packages rc"
  by (cases c) (simp add: SetRest_cell_def Let_def)

lemma packages_SetRest_cell_e: "packages (SetRest_cell_e ke0 rc c) = packages rc"
  by (cases c) (simp add: SetRest_cell_e_def Let_def)

lemma packages_foldl_SetRest_cell: "packages (foldl (SetRest_cell rho0 u0 v0) rc cs) = packages rc"
  by (induction cs arbitrary: rc) (simp_all add: packages_SetRest_cell)

lemma packages_foldl_SetRest_cell_e: "packages (foldl (SetRest_cell_e ke0) rc cs) = packages rc"
  by (induction cs arbitrary: rc) (simp_all add: packages_SetRest_cell_e)

lemma SetRest_Some:
  assumes "SetRest rc domain coarse = Some (st, rc')"
  shows "st = complete_ts \<and> packages rc' = packages rc"
  using assms
  by (auto simp: SetRest_def Let_def packages_foldl_SetRest_cell packages_foldl_SetRest_cell_e
      split: bind_splits if_splits)

lemma Add_if_absent_apply:
  "Add_if_absent ps key x key' = (if key' = key \<and> ps key = None then Some x else ps key')"
  by (simp add: Add_if_absent_def hasKey_def Add_def)

lemma Add_if_absent_keeps: "g key' = Some y \<Longrightarrow> Add_if_absent g key x key' = Some y"
  by (auto simp: Add_if_absent_apply)

lemma Add_if_absent_present: "g key' \<noteq> None \<Longrightarrow> Add_if_absent g key x key' \<noteq> None"
  by (simp add: Add_if_absent_apply)

lemma Add_if_absent_self: "Add_if_absent g key x key \<noteq> None"
  by (simp add: Add_if_absent_apply)

lemma InitializeRest_params_keeps:
  "g key = Some x \<Longrightarrow> InitializeRest_params g inp key = Some x"
  unfolding InitializeRest_params_def Let_def
  by (intro Add_if_absent_keeps)

lemma InitializeRest_params_adds:
  assumes "key \<in> rest_keys"
  shows "InitializeRest_params g inp key \<noteq> None"
proof -
  consider "key = ''rho0''" | "key = ''v0''" | "key = ''u0''" | "key = ''q''"
    | "key = ''context_boundaries''"
    using assms unfolding rest_keys_def by blast
  then show ?thesis
    unfolding InitializeRest_params_def Let_def
    by cases (simp_all only: Add_if_absent_present Add_if_absent_self not_False_eq_True)
qed

lemma InitializeRest_electrons_keeps:
  assumes "InitializeRest_electrons pk g inp = Some g'" and "g key = Some x"
  shows "g' key = Some x"
proof (cases "pk ''Electrons'' = None")
  case True
  then show ?thesis using assms by (simp add: InitializeRest_electrons_def)
next
  case False
  then obtain y where "g' = Add_if_absent g ''ke0'' y"
    using assms(1) by (auto simp: InitializeRest_electrons_def split: bind_splits)
  then show ?thesis using assms(2) by (simp add: Add_if_absent_keeps)
qed


lemma InitializeRest_Some:
  assumes "InitializeRest cv domain0 coarse0 rc pin = Some (st, rc', pin')"
  shows "\<exists>inp pin1 g g'. st = complete_ts \<and> InitializeRest_read cv pin = Some (inp, pin1) \<and>
           pin' = InitializeRest_tlim cv inp pin1 \<and>
           packages rc ''GRMHD'' = Some g \<and>
           InitializeRest_electrons (packages rc) (InitializeRest_params g inp) inp = Some g' \<and>
           packages rc' = (packages rc)(''GRMHD'' \<mapsto> g')"
  using assms
  by (auto simp: InitializeRest_def Let_def split: bind_splits prod.splits dest!: SetRest_Some)

lemma GetOrAddReal_other:
  "GetOrAddReal cv pin blk name d = (x, pin1) \<Longrightarrow> key \<noteq> (blk, name) \<Longrightarrow> pin1 key = pin key"
  by (auto simp: GetOrAddReal_def split: option.splits)

lemma GetOrAddBoolean_other:
  "GetOrAddBoolean cv pin blk name d = (x, pin1) \<Longrightarrow> key \<noteq> (blk, name) \<Longrightarrow> pin1 key = pin key"
  by (auto simp: GetOrAddBoolean_def split: option.splits)

lemma InitializeRest_read_total: "InitializeRest_read cv pin \<noteq> None"
  by (auto simp: InitializeRest_read_def Let_def DoesParameterExist_def GetReal_def split: prod.splits)

lemma InitializeRest_read_q:
  "InitializeRest_read cv pin = Some (inp, pin1) \<Longrightarrow>
   rest_q inp = (case pin (''rest'', ''q'') of Some s \<Rightarrow> atof cv s | None \<Rightarrow> 0)"
  apply (simp add: InitializeRest_read_def Let_def DoesParameterExist_def GetReal_def split: prod.splits if_splits bind_splits)
  apply (auto dest!: GetOrAddReal_other[where key="(''rest'', ''q'')"] GetOrAddBoolean_other[where key="(''rest'', ''q'')"] split: option.splits)
  done

lemma InitializeRest_read_tlim:
  "InitializeRest_read cv pin = Some (inp, pin1) \<Longrightarrow>
   pin1 (''parthenon/time'', ''tlim'') = pin (''parthenon/time'', ''tlim'')"
  apply (simp add: InitializeRest_read_def Let_def split: prod.splits if_splits bind_splits)
  apply (auto dest!: GetOrAddReal_other[where key="(''parthenon/time'', ''tlim'')"] GetOrAddBoolean_other[where key="(''parthenon/time'', ''tlim'')"])
  done


lemma real_or_absent_Add:
  "real_or_absent g key \<Longrightarrow> \<exists>r. Add_if_absent g key (PReal x) key = Some (PReal r)"
  by (auto simp: real_or_absent_def Add_if_absent_apply split: option.splits pvalue.splits)

lemma bool_or_absent_Add:
  "bool_or_absent g key \<Longrightarrow> \<exists>b. Add_if_absent g key (PBool x) key = Some (PBool b)"
  by (auto simp: bool_or_absent_def Add_if_absent_apply split: option.splits pvalue.splits)

lemma Add_if_absent_other: "key' \<noteq> key \<Longrightarrow> Add_if_absent g key x key' = g key'"
  by (simp add: Add_if_absent_apply)

lemma real_or_absent_other:
  "key' \<noteq> key \<Longrightarrow> real_or_absent (Add_if_absent g key x) key' = real_or_absent g key'"
  by (simp add: real_or_absent_def Add_if_absent_other)

lemma bool_or_absent_other:
  "key' \<noteq> key \<Longrightarrow> bool_or_absent (Add_if_absent g key x) key' = bool_or_absent g key'"
  by (simp add: bool_or_absent_def Add_if_absent_other)

lemma real_keeps:
  "\<exists>r. g key' = Some (PReal r) \<Longrightarrow> \<exists>r. Add_if_absent g key x key' = Some (PReal r)"
  by (auto simp: Add_if_absent_keeps)

lemma bool_keeps:
  "\<exists>b. g key' = Some (PBool b) \<Longrightarrow> \<exists>b. Add_if_absent g key x key' = Some (PBool b)"
  by (auto simp: Add_if_absent_keeps)

lemma InitializeRest_params_reals:
  assumes "real_or_absent g ''rho0''" "real_or_absent g ''v0''" "real_or_absent g ''u0''"
    "real_or_absent g ''q''" "bool_or_absent g ''context_boundaries''"
  shows "\<exists>r. InitializeRest_params g inp ''rho0'' = Some (PReal r)"
    and "\<exists>r. InitializeRest_params g inp ''v0'' = Some (PReal r)"
    and "\<exists>r. InitializeRest_params g inp ''u0'' = Some (PReal r)"
    and "\<exists>r. InitializeRest_params g inp ''q'' = Some (PReal r)"
    and "\<exists>b. InitializeRest_params g inp ''context_boundaries'' = Some (PBool b)"
proof -
  define g1 where "g1 = Add_if_absent g ''rho0'' (PReal (rest_rho0 inp))"
  define g2 where "g2 = Add_if_absent g1 ''v0'' (PReal (rest_v0 inp))"
  define g3 where "g3 = Add_if_absent g2 ''u0'' (PReal (rest_u0 inp))"
  define g4 where "g4 = Add_if_absent g3 ''q'' (PReal (rest_q inp))"
  define g5 where "g5 = Add_if_absent g4 ''context_boundaries'' (PBool (rest_context_boundaries inp))"
  have eq: "InitializeRest_params g inp = g5"
    by (simp add: InitializeRest_params_def Let_def g1_def g2_def g3_def g4_def g5_def)
  have r1: "\<exists>r. g1 ''rho0'' = Some (PReal r)"
    unfolding g1_def by (rule real_or_absent_Add[OF assms(1)])
  have "real_or_absent g1 ''v0''"
    unfolding g1_def using assms(2) by (simp add: real_or_absent_other)
  then have r2: "\<exists>r. g2 ''v0'' = Some (PReal r)"
    unfolding g2_def by (rule real_or_absent_Add)
  have "real_or_absent g2 ''u0''"
    unfolding g1_def g2_def using assms(3) by (simp add: real_or_absent_other)
  then have r3: "\<exists>r. g3 ''u0'' = Some (PReal r)"
    unfolding g3_def by (rule real_or_absent_Add)
  have "real_or_absent g3 ''q''"
    unfolding g1_def g2_def g3_def using assms(4) by (simp add: real_or_absent_other)
  then have r4: "\<exists>r. g4 ''q'' = Some (PReal r)"
    unfolding g4_def by (rule real_or_absent_Add)
  have "bool_or_absent g4 ''context_boundaries''"
    unfolding g1_def g2_def g3_def g4_def using assms(5) by (simp add: bool_or_absent_other)
  then have r5: "\<exists>b. g5 ''context_boundaries'' = Some (PBool b)"
    unfolding g5_def by (rule bool_or_absent_Add)
  show "\<exists>r. InitializeRest_params g inp ''rho0'' = Some (PReal r)"
    unfolding eq g5_def g4_def g3_def g2_def by (intro real_keeps r1)
  show "\<exists>r. InitializeRest_params g inp ''v0'' = Some (PReal r)"
    unfolding eq g5_def g4_def g3_def by (intro real_keeps r2)
  show "\<exists>r. InitializeRest_params g inp ''u0'' = Some (PReal r)"
    unfolding eq g5_def g4_def by (intro real_keeps r3)
  show "\<exists>r. InitializeRest_params g inp ''q'' = Some (PReal r)"
    unfolding eq g5_def by (intro real_keeps r4)
  show "\<exists>b. InitializeRest_params g inp ''context_boundaries'' = Some (PBool b)"
    unfolding eq by (rule r5)
qed

lemma InitializeRest_params_ke0: "InitializeRest_params g inp ''ke0'' = g ''ke0''"
  by (simp add: InitializeRest_params_def Let_def Add_if_absent_apply)

lemma Param_Real_upd:
  "Param_Real (pk(p \<mapsto> g)) p' key =
     (if p' = p then (case g key of Some (PReal r) \<Rightarrow> Some r | _ \<Rightarrow> None) else Param_Real pk p' key)"
  by (simp add: Param_Real_def)

lemma Param_Bool_upd:
  "Param_Bool (pk(p \<mapsto> g)) p' key =
     (if p' = p then (case g key of Some (PBool r) \<Rightarrow> Some r | _ \<Rightarrow> None) else Param_Bool pk p' key)"
  by (simp add: Param_Bool_def)

lemma SetRest_succeeds:
  assumes "\<exists>r. g ''u0'' = Some (PReal r)" "\<exists>r. g ''v0'' = Some (PReal r)"
    "\<exists>r. g ''rho0'' = Some (PReal r)" "\<exists>r. g ''q'' = Some (PReal r)"
    "\<exists>b. g ''context_boundaries'' = Some (PBool b)"
    "Param_Real pk ''Globals'' ''time'' \<noteq> None" "Param_Real pk ''Globals'' ''dt_last'' \<noteq> None"
    "pk ''Electrons'' \<noteq> None \<longrightarrow> Param_Real pk ''Electrons'' ''gamma_e'' \<noteq> None \<and> (\<exists>r. g ''ke0'' = Some (PReal r))"
    "packages rc = pk(''GRMHD'' \<mapsto> g)"
  shows "SetRest rc domain coarse \<noteq> None"
  using assms
  by (auto simp: SetRest_def Let_def Param_Real_upd Param_Bool_upd)

lemma InitializeRest_electrons_succeeds:
  assumes "pk ''Electrons'' \<noteq> None \<longrightarrow>
             Param_Real pk ''Electrons'' ''fel_0'' \<noteq> None \<and> Param_Real pk ''Electrons'' ''gamma_e'' \<noteq> None"
  shows "\<exists>g'. InitializeRest_electrons pk g inp = Some g' \<and>
           (\<forall>key. key \<noteq> ''ke0'' \<longrightarrow> g' key = g key) \<and>
           (pk ''Electrons'' \<noteq> None \<longrightarrow> real_or_absent g ''ke0'' \<longrightarrow> (\<exists>r. g' ''ke0'' = Some (PReal r)))"
  using assms
  by (auto simp: InitializeRest_electrons_def Add_if_absent_apply real_or_absent_def
      split: option.splits pvalue.splits)

lemma InitializeRest_succeeds:
  assumes ok: "rest_packages_ok (packages rc)"
  shows "InitializeRest cv domain0 coarse0 rc pin \<noteq> None"
proof -
  obtain inp pin1 where rd: "InitializeRest_read cv pin = Some (inp, pin1)"
    using InitializeRest_read_total[of cv pin] by auto
  obtain g where g: "packages rc ''GRMHD'' = Some g"
    using ok by (auto simp: rest_packages_ok_def split: option.splits)
  let ?pk = "packages rc"
  let ?g1 = "InitializeRest_params g inp"
  have wf: "real_or_absent g ''rho0''" "real_or_absent g ''v0''" "real_or_absent g ''u0''"
    "real_or_absent g ''q''" "bool_or_absent g ''context_boundaries''"
    "Param_Real ?pk ''Globals'' ''time'' \<noteq> None" "Param_Real ?pk ''Globals'' ''dt_last'' \<noteq> None"
    and el: "?pk ''Electrons'' \<noteq> None \<longrightarrow>
             Param_Real ?pk ''Electrons'' ''fel_0'' \<noteq> None \<and>
             Param_Real ?pk ''Electrons'' ''gamma_e'' \<noteq> None \<and> real_or_absent g ''ke0''"
    using ok g by (simp_all add: rest_packages_ok_def)
  obtain g' where g': "InitializeRest_electrons ?pk ?g1 inp = Some g'"
    and same: "\<forall>key. key \<noteq> ''ke0'' \<longrightarrow> g' key = ?g1 key"
    and ke: "?pk ''Electrons'' \<noteq> None \<longrightarrow> real_or_absent ?g1 ''ke0'' \<longrightarrow> (\<exists>r. g' ''ke0'' = Some (PReal r))"
    using InitializeRest_electrons_succeeds[of ?pk ?g1 inp] el by blast
  have ke': "?pk ''Electrons'' \<noteq> None \<longrightarrow> (\<exists>r. g' ''ke0'' = Some (PReal r))"
    using ke el by (simp add: real_or_absent_def InitializeRest_params_ke0)
  note rs = InitializeRest_params_reals[OF wf(1-5), of inp]
  let ?rc1 = "rc\<lparr>packages := ?pk(''GRMHD'' \<mapsto> g')\<rparr>"
  have "SetRest ?rc1 domain0 coarse0 \<noteq> None"
  proof (rule SetRest_succeeds[where pk = ?pk and g = g'])
    show "\<exists>r. g' ''u0'' = Some (PReal r)" using rs same by simp
    show "\<exists>r. g' ''v0'' = Some (PReal r)" using rs same by simp
    show "\<exists>r. g' ''rho0'' = Some (PReal r)" using rs same by simp
    show "\<exists>r. g' ''q'' = Some (PReal r)" using rs same by simp
    show "\<exists>b. g' ''context_boundaries'' = Some (PBool b)" using rs same by simp
    show "Param_Real ?pk ''Globals'' ''time'' \<noteq> None" by (rule wf(6))
    show "Param_Real ?pk ''Globals'' ''dt_last'' \<noteq> None" by (rule wf(7))
    show "?pk ''Electrons'' \<noteq> None \<longrightarrow>
          Param_Real ?pk ''Electrons'' ''gamma_e'' \<noteq> None \<and> (\<exists>r. g' ''ke0'' = Some (PReal r))"
      using el ke' by simp
    show "packages ?rc1 = ?pk(''GRMHD'' \<mapsto> g')" by simp
  qed
  then obtain st rc' where "SetRest ?rc1 domain0 coarse0 = Some (st, rc')" by auto
  then show ?thesis
    using rd g g' by (simp add: InitializeRest_def Let_def)
qed

text \<open>
  Claim C8.  When \<^verbatim>\<open>InitializeRest\<close> returns, each of the keys \<open>rho0\<close>, \<open>v0\<close>, \<open>u0\<close>,
  \<open>q\<close> and \<open>context_boundaries\<close> that the parameters of GRMHD held before holds the
  same value after, and each that was absent is present.
\<close>

theorem InitializeRest_adds_only_absent_keys:
  assumes run: "InitializeRest cv domain0 coarse0 rc pin = Some (st, rc', pin')"
    and key: "key \<in> rest_keys"
  shows "\<exists>g g'. packages rc ''GRMHD'' = Some g \<and> packages rc' ''GRMHD'' = Some g' \<and>
           (hasKey g key \<longrightarrow> g' key = g key) \<and> (\<not> hasKey g key \<longrightarrow> hasKey g' key)"
proof -
  from InitializeRest_Some[OF run] obtain inp g g' where
    g: "packages rc ''GRMHD'' = Some g"
    and el: "InitializeRest_electrons (packages rc) (InitializeRest_params g inp) inp = Some g'"
    and pk: "packages rc' = (packages rc)(''GRMHD'' \<mapsto> g')"
    by blast
  have 1: "hasKey g key \<longrightarrow> g' key = g key"
    using InitializeRest_electrons_keeps[OF el] InitializeRest_params_keeps[of g key _ inp]
    by (auto simp: hasKey_def)
  have "InitializeRest_params g inp key \<noteq> None"
    by (rule InitializeRest_params_adds[OF key])
  then have 2: "hasKey g' key"
    using InitializeRest_electrons_keeps[OF el] by (auto simp: hasKey_def)
  show ?thesis using g pk 1 2 by simp
qed

lemma ex_rest_packages_ok: "rest_packages_ok (packages ex_rest_block)"
  by (simp add: rest_packages_ok_def real_or_absent_def bool_or_absent_def Param_Real_def
      ex_rest_block_def ex_block_def)

theorem InitializeRest_adds_only_absent_keys_witness:
  "\<exists>st rc' pin'.
     InitializeRest ex_conv interior_dom False ex_rest_block Map.empty = Some (st, rc', pin')
     \<and> ''rho0'' \<in> rest_keys \<and> ''q'' \<in> rest_keys
     \<and> (\<exists>g'. packages rc' ''GRMHD'' = Some g' \<and> g' ''rho0'' = Some (PReal 5) \<and> hasKey g' ''q'')"
proof -
  obtain st rc' pin' where
    run: "InitializeRest ex_conv interior_dom False ex_rest_block Map.empty = Some (st, rc', pin')"
    using InitializeRest_succeeds[OF ex_rest_packages_ok, of ex_conv interior_dom False Map.empty]
    by auto
  have k1: "''rho0'' \<in> rest_keys" and k2: "''q'' \<in> rest_keys"
    by (simp_all add: rest_keys_def)
  have g: "packages ex_rest_block ''GRMHD'' = Some [''rho0'' \<mapsto> PReal 5]"
    by (simp add: ex_rest_block_def ex_block_def)
  have "\<exists>g'. packages rc' ''GRMHD'' = Some g' \<and> g' ''rho0'' = Some (PReal 5) \<and> hasKey g' ''q''"
    using InitializeRest_adds_only_absent_keys[OF run k1]
      InitializeRest_adds_only_absent_keys[OF run k2] g
    by (auto simp: hasKey_def)
  then show ?thesis using run k1 k2 by blast
qed

text \<open>
  Claim C9.  When the exponent \<open>q\<close> read from the input is 0 (as it is when the input
  has no \<open>q\<close>), \<^verbatim>\<open>InitializeRest\<close> leaves the time limit of the input as it was,
  the only statement that divides by \<open>q\<close> being the one that sets it; every return is
  a success, and on packages on which no lookup throws the function does return.
\<close>

theorem InitializeRest_guards_zero_q:
  assumes q0: "(case pin (''rest'', ''q'') of Some s \<Rightarrow> atof cv s | None \<Rightarrow> 0) = 0"
  shows "(\<forall>st rc' pin'. InitializeRest cv domain0 coarse0 rc pin = Some (st, rc', pin') \<longrightarrow>
            st = complete_ts \<and> pin' (''parthenon/time'', ''tlim'') = pin (''parthenon/time'', ''tlim''))
       \<and> (rest_packages_ok (packages rc) \<longrightarrow> InitializeRest cv domain0 coarse0 rc pin \<noteq> None)"
proof (intro conjI allI impI)
  fix st rc' pin'
  assume run: "InitializeRest cv domain0 coarse0 rc pin = Some (st, rc', pin')"
  from InitializeRest_Some[OF run] obtain inp pin1 where
    st: "st = complete_ts" and rd: "InitializeRest_read cv pin = Some (inp, pin1)"
    and p: "pin' = InitializeRest_tlim cv inp pin1"
    by blast
  show "st = complete_ts" by (rule st)
  have "rest_q inp = 0" using InitializeRest_read_q[OF rd] q0 by simp
  then have "pin' = pin1" using p by (simp add: InitializeRest_tlim_def)
  then show "pin' (''parthenon/time'', ''tlim'') = pin (''parthenon/time'', ''tlim'')"
    using InitializeRest_read_tlim[OF rd] by simp
next
  assume "rest_packages_ok (packages rc)"
  then show "InitializeRest cv domain0 coarse0 rc pin \<noteq> None"
    by (rule InitializeRest_succeeds)
qed

theorem InitializeRest_guards_zero_q_witness:
  "(case [(''rest'', ''set_tlim'') \<mapsto> ''true''] (''rest'', ''q'') of
      Some s \<Rightarrow> atof (ex_conv\<lparr>atob := (\<lambda>s. True)\<rparr>) s | None \<Rightarrow> 0) = 0
   \<and> rest_packages_ok (packages ex_rest_block)
   \<and> (\<exists>rc' pin'.
        InitializeRest (ex_conv\<lparr>atob := (\<lambda>s. True)\<rparr>) interior_dom False ex_rest_block
          [(''rest'', ''set_tlim'') \<mapsto> ''true''] = Some (complete_ts, rc', pin')
        \<and> pin' (''parthenon/time'', ''tlim'') = None)"
proof -
  let ?cv = "ex_conv\<lparr>atob := (\<lambda>s. True)\<rparr>"
  let ?pin = "[(''rest'', ''set_tlim'') \<mapsto> ''true'']"
  have q0: "(case ?pin (''rest'', ''q'') of Some s \<Rightarrow> atof ?cv s | None \<Rightarrow> 0) = 0"
    by simp
  have t0: "?pin (''parthenon/time'', ''tlim'') = None"
    by simp
  note w = InitializeRest_guards_zero_q[of ?cv ?pin interior_dom False ex_rest_block]
  obtain st rc' pin' where
    run: "InitializeRest ?cv interior_dom False ex_rest_block ?pin = Some (st, rc', pin')"
    using w q0 ex_rest_packages_ok by auto
  then have "st = complete_ts \<and> pin' (''parthenon/time'', ''tlim'') = None"
    using w q0 t0 by simp
  then show ?thesis using q0 ex_rest_packages_ok run by blast
qed

end
